theory Spec2Isabelle
  imports Complex_Main "HOL-Library.Monad_Syntax"
begin

section \<open>Python values and the tag database\<close>

text \<open>
  The control core of the LACT unit is Python. Its tag database (\<^verbatim>\<open>DataStore\<close>) holds
  dynamically typed values, so a tag value is modelled as a tagged value. Python floats are
  modelled as reals and Python integers as unbounded integers. A function of the source
  that can raise \<^verbatim>\<open>TypeError\<close> on a value of the wrong type returns an option here, with
  \<open>None\<close> for the raise. The wall clock (\<^verbatim>\<open>time.time()\<close>) is an argument \<open>now\<close> of every
  operation that reads it; one operation reads one instant.
\<close>

datatype pyval = PNone | PBool bool | PInt int | PFloat real | PStr string

text \<open>Truth value of a Python object, as used by \<^verbatim>\<open>if x:\<close>, \<^verbatim>\<open>x or y\<close> and \<^verbatim>\<open>bool(x)\<close>.\<close>

fun truthy :: "pyval \<Rightarrow> bool" where
  "truthy PNone = False"
| "truthy (PBool b) = b"
| "truthy (PInt i) = (i \<noteq> 0)"
| "truthy (PFloat r) = (r \<noteq> 0)"
| "truthy (PStr s) = (s \<noteq> [])"

text \<open>Numeric value of a Python object in arithmetic and ordering against a float;
  \<open>None\<close> where Python raises \<^verbatim>\<open>TypeError\<close>.\<close>

fun num :: "pyval \<Rightarrow> real option" where
  "num PNone = None"
| "num (PBool b) = Some (if b then 1 else 0)"
| "num (PInt i) = Some (of_int i)"
| "num (PFloat r) = Some r"
| "num (PStr s) = None"

text \<open>Python's \<^verbatim>\<open>x or d\<close>.\<close>

definition py_or :: "pyval \<Rightarrow> pyval \<Rightarrow> pyval" where
  "py_or x d = (if truthy x then x else d)"

text \<open>Python's \<^verbatim>\<open>round(x, ndigits)\<close> on a float: to the nearest multiple of
  \<open>10 ^ (- ndigits)\<close>, ties to the even neighbour.\<close>

definition round_half_even :: "real \<Rightarrow> int" where
  "round_half_even x =
     (let f = \<lfloor>x\<rfloor>; d = x - of_int f
      in if d < 1 / 2 then f
         else if d > 1 / 2 then f + 1
         else if even f then f else f + 1)"

definition py_round :: "real \<Rightarrow> nat \<Rightarrow> real" where
  "py_round x ndigits = of_int (round_half_even (x * 10 ^ ndigits)) / 10 ^ ndigits"

text \<open>\<^verbatim>\<open>round\<close> applied to a stored value: an integer (or bool) stays an integer for
  \<open>ndigits \<ge> 0\<close>, a float is rounded, anything else raises.\<close>

fun py_round_val :: "pyval \<Rightarrow> nat \<Rightarrow> pyval option" where
  "py_round_val (PFloat r) n = Some (PFloat (py_round r n))"
| "py_round_val (PInt i) n = Some (PInt i)"
| "py_round_val (PBool b) n = Some (PInt (if b then 1 else 0))"
| "py_round_val PNone n = None"
| "py_round_val (PStr s) n = None"

record TagValue =
  tv_value :: pyval
  tv_timestamp :: real
  tv_quality :: string

type_synonym DataStore = "string \<Rightarrow> TagValue option"

definition ds_read :: "DataStore \<Rightarrow> string \<Rightarrow> pyval" where
  "ds_read ds tag = (case ds tag of None \<Rightarrow> PNone | Some tv \<Rightarrow> tv_value tv)"

definition read_with_quality :: "DataStore \<Rightarrow> string \<Rightarrow> TagValue option" where
  "read_with_quality ds tag = ds tag"

definition ds_write_q :: "real \<Rightarrow> string \<Rightarrow> pyval \<Rightarrow> string \<Rightarrow> DataStore \<Rightarrow> DataStore" where
  "ds_write_q now tag v q ds =
     ds(tag \<mapsto> \<lparr>tv_value = v, tv_timestamp = now, tv_quality = q\<rparr>)"

definition ds_write :: "real \<Rightarrow> string \<Rightarrow> pyval \<Rightarrow> DataStore \<Rightarrow> DataStore" where
  "ds_write now tag v ds = ds_write_q now tag v ''GOOD'' ds"

section \<open>Alarm configuration and alarm state\<close>

datatype AlarmPriority = INFO | LOW | MEDIUM | HIGH | CRITICAL

datatype AlarmAction =
  ACT_LOG_ONLY | ACT_ANNUNCIATE | ACT_DIVERT | ACT_SHUTDOWN | ACT_EMERGENCY_STOP

fun priority_value :: "AlarmPriority \<Rightarrow> int" where
  "priority_value INFO = 0"
| "priority_value LOW = 1"
| "priority_value MEDIUM = 2"
| "priority_value HIGH = 3"
| "priority_value CRITICAL = 4"

fun action_value :: "AlarmAction \<Rightarrow> int" where
  "action_value ACT_LOG_ONLY = 0"
| "action_value ACT_ANNUNCIATE = 1"
| "action_value ACT_DIVERT = 2"
| "action_value ACT_SHUTDOWN = 3"
| "action_value ACT_EMERGENCY_STOP = 4"

record AlarmDefinition =
  ad_tag :: string
  priority :: AlarmPriority
  action :: AlarmAction
  auto_acknowledge :: bool
  latching :: bool

record AlarmState =
  al_definition :: AlarmDefinition
  al_active :: bool
  al_acknowledged :: bool
  al_timestamp :: real
  al_value :: pyval

text \<open>The dataclass defaults of \<^verbatim>\<open>AlarmState(definition=defn)\<close>.\<close>

definition AlarmState_init :: "AlarmDefinition \<Rightarrow> AlarmState" where
  "AlarmState_init d =
     \<lparr>al_definition = d, al_active = False, al_acknowledged = False,
      al_timestamp = 0, al_value = PFloat 0\<rparr>"

definition activate :: "pyval \<Rightarrow> real \<Rightarrow> AlarmState \<Rightarrow> AlarmState" where
  "activate v now s =
     (if \<not> al_active s
      then s\<lparr>al_active := True, al_acknowledged := False, al_timestamp := now, al_value := v\<rparr>
      else s)"

definition deactivate :: "AlarmState \<Rightarrow> AlarmState" where
  "deactivate s =
     (if \<not> latching (al_definition s) \<or> al_acknowledged s
      then s\<lparr>al_active := False, al_acknowledged := False\<rparr>
      else s)"

definition acknowledge :: "AlarmState \<Rightarrow> AlarmState" where
  "acknowledge s =
     (let s1 = s\<lparr>al_acknowledged := True\<rparr>
      in if \<not> al_active s1 \<or> \<not> latching (al_definition s1)
         then s1\<lparr>al_active := False\<rparr>
         else s1)"

text \<open>An alarm definition with the dataclass defaults (not auto-acknowledged, latching).\<close>

definition alarm_def :: "string \<Rightarrow> AlarmPriority \<Rightarrow> AlarmAction \<Rightarrow> AlarmDefinition" where
  "alarm_def t p a =
     \<lparr>ad_tag = t, priority = p, action = a, auto_acknowledge = False, latching = True\<rparr>"

text \<open>The default \<^verbatim>\<open>AlarmConfig.definitions\<close> dictionary, in insertion order.\<close>

definition AlarmConfig_definitions :: "(string \<times> AlarmDefinition) list" where
  "AlarmConfig_definitions =
     [(''ALM_ESTOP'', alarm_def ''ALM_ESTOP'' CRITICAL ACT_EMERGENCY_STOP),
      (''ALM_PUMP_OVERLOAD'', alarm_def ''ALM_PUMP_OVERLOAD'' CRITICAL ACT_SHUTDOWN),
      (''ALM_PUMP_FAIL_START'', alarm_def ''ALM_PUMP_FAIL_START'' HIGH ACT_SHUTDOWN),
      (''ALM_PUMP_MAX_STARTS'', alarm_def ''ALM_PUMP_MAX_STARTS'' HIGH ACT_ANNUNCIATE),
      (''ALM_BSW_HIGH'', alarm_def ''ALM_BSW_HIGH'' MEDIUM ACT_ANNUNCIATE),
      (''ALM_BSW_DIVERT'', alarm_def ''ALM_BSW_DIVERT'' HIGH ACT_DIVERT),
      (''ALM_BSW_PROBE_FAIL'', alarm_def ''ALM_BSW_PROBE_FAIL'' HIGH ACT_DIVERT),
      (''ALM_INLET_PRESS_LO'', alarm_def ''ALM_INLET_PRESS_LO'' HIGH ACT_SHUTDOWN),
      (''ALM_INLET_PRESS_HI'', alarm_def ''ALM_INLET_PRESS_HI'' HIGH ACT_SHUTDOWN),
      (''ALM_LOOP_PRESS_HI'', alarm_def ''ALM_LOOP_PRESS_HI'' HIGH ACT_SHUTDOWN),
      (''ALM_OUTLET_PRESS_LO'', alarm_def ''ALM_OUTLET_PRESS_LO'' MEDIUM ACT_ANNUNCIATE),
      (''ALM_STRAINER_DP_HI'', alarm_def ''ALM_STRAINER_DP_HI'' MEDIUM ACT_ANNUNCIATE),
      (''ALM_TEMP_LO'', alarm_def ''ALM_TEMP_LO'' MEDIUM ACT_ANNUNCIATE),
      (''ALM_TEMP_HI'', alarm_def ''ALM_TEMP_HI'' MEDIUM ACT_ANNUNCIATE),
      (''ALM_TEMP_DELTA'', alarm_def ''ALM_TEMP_DELTA'' LOW ACT_ANNUNCIATE),
      (''ALM_FLOW_LO'', alarm_def ''ALM_FLOW_LO'' MEDIUM ACT_ANNUNCIATE),
      (''ALM_FLOW_HI'', alarm_def ''ALM_FLOW_HI'' HIGH ACT_ANNUNCIATE),
      (''ALM_NO_FLOW'', alarm_def ''ALM_NO_FLOW'' HIGH ACT_SHUTDOWN),
      (''ALM_DIVERT_FAIL'', alarm_def ''ALM_DIVERT_FAIL'' CRITICAL ACT_SHUTDOWN),
      (''ALM_SAMPLE_POT_FULL'', alarm_def ''ALM_SAMPLE_POT_FULL'' LOW ACT_ANNUNCIATE),
      (''ALM_GAS_DETECTED'', alarm_def ''ALM_GAS_DETECTED'' MEDIUM ACT_ANNUNCIATE),
      (''ALM_PROVE_REPEAT_FAIL'', alarm_def ''ALM_PROVE_REPEAT_FAIL'' LOW ACT_ANNUNCIATE),
      (''ALM_PROVE_MF_RANGE'', alarm_def ''ALM_PROVE_MF_RANGE'' MEDIUM ACT_ANNUNCIATE)]"

section \<open>Safety manager: alarm bookkeeping\<close>

text \<open>
  \<^verbatim>\<open>SafetyManager.alarm_states\<close> is a dictionary from alarm tag to a mutable
  \<^verbatim>\<open>AlarmState\<close>; it is an association list here (keys in the configuration's order),
  since the manager iterates over its values.
\<close>

record SafetyManager =
  alarm_states :: "(string \<times> AlarmState) list"
  horn_silence_time :: "real option"
  shutdown_requested :: bool
  divert_requested :: bool

definition SafetyManager_init :: "(string \<times> AlarmDefinition) list \<Rightarrow> SafetyManager" where
  "SafetyManager_init defs =
     \<lparr>alarm_states = map (\<lambda>(t, d). (t, AlarmState_init d)) defs,
      horn_silence_time = None,
      shutdown_requested = False,
      divert_requested = False\<rparr>"

text \<open>In-place mutation of the alarm state that the dictionary holds under a tag.\<close>

fun modify_alarm ::
  "string \<Rightarrow> (AlarmState \<Rightarrow> AlarmState) \<Rightarrow> (string \<times> AlarmState) list \<Rightarrow> (string \<times> AlarmState) list"
where
  "modify_alarm t f [] = []"
| "modify_alarm t f ((k, s) # rest) =
     (if k = t then (k, f s) # rest else (k, s) # modify_alarm t f rest)"

definition sm_activate :: "string \<Rightarrow> pyval \<Rightarrow> real \<Rightarrow> SafetyManager \<Rightarrow> SafetyManager" where
  "sm_activate t v now m =
     (case map_of (alarm_states m) t of
        None \<Rightarrow> m
      | Some st \<Rightarrow>
          (let m1 = m\<lparr>alarm_states := modify_alarm t (activate v now) (alarm_states m)\<rparr>;
               a = action (al_definition st)
           in if a = ACT_SHUTDOWN \<or> a = ACT_EMERGENCY_STOP then m1\<lparr>shutdown_requested := True\<rparr>
              else if a = ACT_DIVERT then m1\<lparr>divert_requested := True\<rparr>
              else m1))"

definition sm_deactivate :: "string \<Rightarrow> SafetyManager \<Rightarrow> SafetyManager" where
  "sm_deactivate t m =
     (case map_of (alarm_states m) t of
        None \<Rightarrow> m
      | Some st \<Rightarrow> m\<lparr>alarm_states := modify_alarm t deactivate (alarm_states m)\<rparr>)"

definition acknowledge_alarm :: "string \<Rightarrow> SafetyManager \<Rightarrow> SafetyManager \<times> bool" where
  "acknowledge_alarm t m =
     (case map_of (alarm_states m) t of
        None \<Rightarrow> (m, False)
      | Some st \<Rightarrow>
          if al_active st
          then (m\<lparr>alarm_states := modify_alarm t acknowledge (alarm_states m)\<rparr>, True)
          else (m, False))"

definition acknowledge_all :: "SafetyManager \<Rightarrow> SafetyManager" where
  "acknowledge_all m =
     m\<lparr>alarm_states :=
         map (\<lambda>(k, s). if al_active s then (k, acknowledge s) else (k, s)) (alarm_states m)\<rparr>"

definition get_active_alarms :: "SafetyManager \<Rightarrow> AlarmState list" where
  "get_active_alarms m = filter al_active (map snd (alarm_states m))"

definition get_unacknowledged_alarms :: "SafetyManager \<Rightarrow> AlarmState list" where
  "get_unacknowledged_alarms m =
     filter (\<lambda>s. al_active s \<and> \<not> al_acknowledged s) (map snd (alarm_states m))"

text \<open>Sequences of the operations that change alarm states.\<close>

datatype alarm_op = Activate pyval real | Deactivate | Acknowledge

fun apply_alarm_op :: "AlarmState \<Rightarrow> alarm_op \<Rightarrow> AlarmState" where
  "apply_alarm_op s (Activate v now) = activate v now s"
| "apply_alarm_op s Deactivate = deactivate s"
| "apply_alarm_op s Acknowledge = acknowledge s"

datatype safety_op =
  SM_activate string pyval real
| SM_deactivate string
| SM_acknowledge_alarm string
| SM_acknowledge_all

fun apply_safety_op :: "SafetyManager \<Rightarrow> safety_op \<Rightarrow> SafetyManager" where
  "apply_safety_op m (SM_activate t v now) = sm_activate t v now m"
| "apply_safety_op m (SM_deactivate t) = sm_deactivate t m"
| "apply_safety_op m (SM_acknowledge_alarm t) = fst (acknowledge_alarm t m)"
| "apply_safety_op m SM_acknowledge_all = acknowledge_all m"

text \<open>For a latching alarm, being acknowledged implies being active.\<close>

definition ack_implies_active :: "AlarmState \<Rightarrow> bool" where
  "ack_implies_active s = (latching (al_definition s) \<longrightarrow> al_acknowledged s \<longrightarrow> al_active s)"

definition alarms_ok :: "SafetyManager \<Rightarrow> bool" where
  "alarms_ok m = list_all (\<lambda>(k, s). ack_implies_active s) (alarm_states m)"

section \<open>Setpoints\<close>

record Setpoints =
  bsw_divert_pct :: real
  bsw_alarm_pct :: real
  bsw_sample_delay_sec :: real
  bsw_divert_delay_sec :: real
  meter_k_factor :: real
  meter_min_flow_bph :: real
  meter_max_flow_bph :: real
  meter_no_flow_timeout_sec :: real
  temp_base_deg_f :: real
  temp_lo_alarm_f :: real
  temp_hi_alarm_f :: real
  temp_max_delta_f :: real
  inlet_press_lo_psi :: real
  inlet_press_hi_psi :: real
  loop_press_hi_psi :: real
  outlet_press_lo_psi :: real
  backpressure_sales_psi :: real
  backpressure_divert_psi :: real
  strainer_dp_hi_psi :: real
  pump_start_delay_sec :: real
  pump_stop_delay_sec :: real
  pump_restart_lockout_sec :: real
  pump_max_starts_per_hour :: int
  sample_rate_sec :: real
  sample_volume_ml :: real
  sample_mix_time_sec :: real
  sample_pot_full_gal :: real
  prove_num_runs :: int
  prove_repeatability_pct :: real
  prove_meter_factor_min :: real
  prove_meter_factor_max :: real
  divert_travel_timeout_sec :: real
  divert_confirm_delay_sec :: real
  scan_rate_ms :: int
  alarm_horn_silence_sec :: real
  watchdog_timeout_sec :: real

text \<open>The dataclass defaults of \<^verbatim>\<open>Setpoints()\<close>.\<close>

definition Setpoints_default :: Setpoints where
  "Setpoints_default =
     \<lparr>bsw_divert_pct = 1, bsw_alarm_pct = 1 / 2, bsw_sample_delay_sec = 5,
      bsw_divert_delay_sec = 3,
      meter_k_factor = 100, meter_min_flow_bph = 30, meter_max_flow_bph = 750,
      meter_no_flow_timeout_sec = 60,
      temp_base_deg_f = 60, temp_lo_alarm_f = 20, temp_hi_alarm_f = 150, temp_max_delta_f = 2,
      inlet_press_lo_psi = 5, inlet_press_hi_psi = 250, loop_press_hi_psi = 250,
      outlet_press_lo_psi = 5, backpressure_sales_psi = 50, backpressure_divert_psi = 50,
      strainer_dp_hi_psi = 15,
      pump_start_delay_sec = 5, pump_stop_delay_sec = 3, pump_restart_lockout_sec = 30,
      pump_max_starts_per_hour = 6,
      sample_rate_sec = 15, sample_volume_ml = 5, sample_mix_time_sec = 30,
      sample_pot_full_gal = 15,
      prove_num_runs = 5, prove_repeatability_pct = 5 / 100,
      prove_meter_factor_min = 98 / 100, prove_meter_factor_max = 102 / 100,
      divert_travel_timeout_sec = 15, divert_confirm_delay_sec = 2,
      scan_rate_ms = 100, alarm_horn_silence_sec = 300, watchdog_timeout_sec = 5\<rparr>"

section \<open>Transfer pump control\<close>

record PumpControl =
  start_times :: "real list"
  last_trip_time :: real
  locked_out :: bool

definition PumpControl_init :: PumpControl where
  "PumpControl_init = \<lparr>start_times = [], last_trip_time = 0, locked_out = False\<rparr>"

text \<open>\<^verbatim>\<open>deque(maxlen=20).append\<close>: a full deque drops its oldest element.\<close>

definition deque_append :: "nat \<Rightarrow> 'a list \<Rightarrow> 'a \<Rightarrow> 'a list" where
  "deque_append maxlen xs x = (if length xs \<ge> maxlen then tl xs @ [x] else xs @ [x])"

definition pump_execute :: "real \<Rightarrow> Setpoints \<Rightarrow> DataStore \<Rightarrow> PumpControl \<Rightarrow> DataStore \<times> PumpControl" where
  "pump_execute now sp ds p =
     (let pump_cmd = ds_read ds ''DO_PUMP_START'';
          pump_overload = ds_read ds ''DI_PUMP_OVERLOAD'';
          (ds1, p1) =
            (if truthy pump_overload \<and> truthy pump_cmd
             then (ds_write now ''DO_PUMP_START'' (PBool False) ds,
                   p\<lparr>last_trip_time := now, locked_out := True\<rparr>)
             else (ds, p))
      in if locked_out p1
         then (if now - last_trip_time p1 < pump_restart_lockout_sec sp
               then (ds_write now ''DO_PUMP_START'' (PBool False) ds1, p1)
               else (ds1, p1\<lparr>locked_out := False\<rparr>))
         else (ds1, p1))"

definition record_start :: "real \<Rightarrow> Setpoints \<Rightarrow> PumpControl \<Rightarrow> PumpControl \<times> bool" where
  "record_start now sp p =
     (let p1 = p\<lparr>start_times := deque_append 20 (start_times p) now\<rparr>;
          one_hour_ago = now - 3600;
          recent_starts = length (filter (\<lambda>t. t > one_hour_ago) (start_times p1))
      in if int recent_starts \<ge> pump_max_starts_per_hour sp
         then (p1\<lparr>locked_out := True\<rparr>, False)
         else (p1, True))"

text \<open>A sequence of \<^verbatim>\<open>record_start\<close> calls at the given clock readings; the results are
  returned in call order.\<close>

fun record_starts :: "Setpoints \<Rightarrow> real list \<Rightarrow> PumpControl \<Rightarrow> PumpControl \<times> bool list" where
  "record_starts sp [] p = (p, [])"
| "record_starts sp (t # ts) p =
     (let (p1, r) = record_start t sp p;
          (p2, rs) = record_starts sp ts p1
      in (p2, r # rs))"

text \<open>All calls fall within one rolling hour: every earlier start is still counted when a
  later call looks back 3600 seconds.\<close>

fun within_rolling_hour :: "real list \<Rightarrow> bool" where
  "within_rolling_hour [] = True"
| "within_rolling_hour (t # ts) = (list_all (\<lambda>u. t > u - 3600) ts \<and> within_rolling_hour ts)"

section \<open>Temperature monitoring and CTL\<close>

definition compute_ctl :: "Setpoints \<Rightarrow> real \<Rightarrow> real" where
  "compute_ctl sp observed_temp_f =
     (let base_temp = temp_base_deg_f sp;
          dt = observed_temp_f - base_temp
      in if \<bar>dt\<bar> < 1 / 100 then 1
         else (let alpha_60 = 46 / 100000;
                   ctl = exp (- alpha_60 * dt * (1 + (8 / 10) * alpha_60 * dt))
               in max (9 / 10) (min (11 / 10) ctl)))"

definition temperature_execute :: "real \<Rightarrow> Setpoints \<Rightarrow> DataStore \<Rightarrow> DataStore option" where
  "temperature_execute now sp ds =
     (let meter_temp = ds_read ds ''AI_METER_TEMP'';
          process_temp = meter_temp
      in do {
           t \<leftarrow> num process_temp;
           let ctl = compute_ctl sp t;
           let ds1 = ds_write now ''CTL_FACTOR'' (PFloat (py_round ctl 6)) ds;
           r \<leftarrow> py_round_val process_temp 1;
           Some (ds_write now ''TEMP_CORRECTED_F'' r ds1)
         })"

section \<open>Flow measurement\<close>

record FlowMeasurement =
  last_pulse_count :: pyval
  last_pulse_time :: real
  flow_rate_bph :: real
  gross_total_bbl :: real

definition FlowMeasurement_init :: "real \<Rightarrow> FlowMeasurement" where
  "FlowMeasurement_init now =
     \<lparr>last_pulse_count = PInt 0, last_pulse_time = now, flow_rate_bph = 0, gross_total_bbl = 0\<rparr>"

text \<open>The pulse delta of one scan: a negative difference is taken as a counter rollover
  and replaced by the current count.\<close>

definition delta_pulses :: "real \<Rightarrow> real \<Rightarrow> real" where
  "delta_pulses current_pulses last_count =
     (if current_pulses - last_count < 0 then current_pulses else current_pulses - last_count)"

text \<open>The gross volume increment of one scan.\<close>

definition delta_bbl :: "Setpoints \<Rightarrow> real \<Rightarrow> real" where
  "delta_bbl sp dp = (let k_factor = meter_k_factor sp in if k_factor > 0 then dp / k_factor else 0)"

definition flow_execute ::
  "real \<Rightarrow> Setpoints \<Rightarrow> DataStore \<Rightarrow> FlowMeasurement \<Rightarrow> (DataStore \<times> FlowMeasurement) option"
where
  "flow_execute now sp ds f =
     (let current_pulses = ds_read ds ''PI_METER_PULSE'' in
      do {
        cur \<leftarrow> num current_pulses;
        last \<leftarrow> num (last_pulse_count f);
        let dp = delta_pulses cur last;
        let delta_time0 = now - last_pulse_time f;
        let delta_time = (if delta_time0 \<le> 0 then of_int (scan_rate_ms sp) / 1000 else delta_time0);
        let db = delta_bbl sp dp;
        let rate = (if delta_time > 0 \<and> dp > 0 then db / delta_time * 3600
                    else if delta_time > 2 then 0
                    else flow_rate_bph f);
        let gross = gross_total_bbl f + db;
        meter_factor \<leftarrow> num (py_or (ds_read ds ''METER_FACTOR'') (PFloat 1));
        let corrected_gross = gross * meter_factor;
        ctl \<leftarrow> num (py_or (ds_read ds ''CTL_FACTOR'') (PFloat 1));
        let net_bbl = corrected_gross * ctl;
        let ds1 = ds_write now ''FLOW_RATE_BPH'' (PFloat (py_round rate 2)) ds;
        let ds2 = ds_write now ''FLOW_TOTAL_BBL'' (PFloat (py_round gross 4)) ds1;
        let ds3 = ds_write now ''FLOW_NET_BBL'' (PFloat (py_round net_bbl 4)) ds2;
        let ds4 = ds_write now ''BATCH_GROSS_BBL'' (PFloat (py_round corrected_gross 4)) ds3;
        let ds5 = ds_write now ''BATCH_NET_BBL'' (PFloat (py_round net_bbl 4)) ds4;
        Some (ds5, f\<lparr>last_pulse_count := current_pulses, last_pulse_time := now,
                     flow_rate_bph := rate, gross_total_bbl := gross\<rparr>)
      })"

definition flow_reset_totals :: "real \<Rightarrow> DataStore \<Rightarrow> FlowMeasurement \<Rightarrow> DataStore \<times> FlowMeasurement" where
  "flow_reset_totals now ds f =
     (let ds1 = ds_write now ''FLOW_TOTAL_BBL'' (PFloat 0) ds;
          ds2 = ds_write now ''FLOW_NET_BBL'' (PFloat 0) ds1;
          ds3 = ds_write now ''BATCH_GROSS_BBL'' (PFloat 0) ds2;
          ds4 = ds_write now ''BATCH_NET_BBL'' (PFloat 0) ds3
      in (ds4, f\<lparr>gross_total_bbl := 0\<rparr>))"

section \<open>Initial tag database\<close>

definition tag0 :: "pyval \<Rightarrow> TagValue" where
  "tag0 v = \<lparr>tv_value = v, tv_timestamp = 0, tv_quality = ''GOOD''\<rparr>"

text \<open>The tags registered by \<^verbatim>\<open>DataStore._init_tags\<close> with their default values.\<close>

definition DataStore_init :: DataStore where
  "DataStore_init = map_of
     [(''DI_INLET_VLV_OPEN'', tag0 (PBool False)), (''DI_INLET_VLV_CLOSED'', tag0 (PBool False)),
      (''DI_STRAINER_HI_DP'', tag0 (PBool False)),
      (''DI_PUMP_RUNNING'', tag0 (PBool False)), (''DI_PUMP_OVERLOAD'', tag0 (PBool False)),
      (''DI_DIVERT_SALES'', tag0 (PBool False)), (''DI_DIVERT_DIVERT'', tag0 (PBool False)),
      (''DI_SAMPLE_POT_HI'', tag0 (PBool False)), (''DI_SAMPLE_POT_LO'', tag0 (PBool False)),
      (''DI_PROVER_VLV_OPEN'', tag0 (PBool False)),
      (''DI_AIR_ELIM_FLOAT'', tag0 (PBool False)),
      (''DI_OUTLET_VLV_OPEN'', tag0 (PBool False)),
      (''DI_ESTOP'', tag0 (PBool False)),
      (''DO_PUMP_START'', tag0 (PBool False)), (''DO_DIVERT_CMD'', tag0 (PBool False)),
      (''DO_SAMPLE_SOL'', tag0 (PBool False)), (''DO_SAMPLE_MIX_PUMP'', tag0 (PBool False)),
      (''DO_PROVER_VLV_CMD'', tag0 (PBool False)),
      (''DO_ALARM_BEACON'', tag0 (PBool False)), (''DO_ALARM_HORN'', tag0 (PBool False)),
      (''DO_STATUS_GREEN'', tag0 (PBool False)),
      (''AI_INLET_PRESS'', tag0 (PFloat 0)), (''AI_LOOP_HI_PRESS'', tag0 (PFloat 0)),
      (''AI_STRAINER_DP'', tag0 (PFloat 0)), (''AI_BSW_PROBE'', tag0 (PFloat 0)),
      (''AI_METER_TEMP'', tag0 (PFloat 60)), (''AI_TEST_THERMO'', tag0 (PFloat 60)),
      (''AI_OUTLET_PRESS'', tag0 (PFloat 0)),
      (''PI_METER_PULSE'', tag0 (PInt 0)),
      (''AO_BP_SALES_SP'', tag0 (PFloat 50)), (''AO_BP_DIVERT_SP'', tag0 (PFloat 50)),
      (''FLOW_RATE_BPH'', tag0 (PFloat 0)), (''FLOW_TOTAL_BBL'', tag0 (PFloat 0)),
      (''FLOW_NET_BBL'', tag0 (PFloat 0)), (''BSW_PCT'', tag0 (PFloat 0)),
      (''TEMP_CORRECTED_F'', tag0 (PFloat 60)), (''METER_FACTOR'', tag0 (PFloat 1)),
      (''CTL_FACTOR'', tag0 (PFloat 1)), (''NET_VOLUME_BBL'', tag0 (PFloat 0)),
      (''SAMPLE_TOTAL_GRABS'', tag0 (PInt 0)), (''SAMPLE_TOTAL_ML'', tag0 (PFloat 0)),
      (''BATCH_START_TIME'', tag0 (PFloat 0)), (''BATCH_ELAPSED_SEC'', tag0 (PFloat 0)),
      (''BATCH_GROSS_BBL'', tag0 (PFloat 0)), (''BATCH_NET_BBL'', tag0 (PFloat 0)),
      (''LACT_STATE'', tag0 (PStr ''IDLE'')), (''PREV_STATE'', tag0 (PStr ''IDLE'')),
      (''DIVERT_REASON'', tag0 (PStr [])),
      (''ALARM_ACTIVE_COUNT'', tag0 (PInt 0)), (''ALARM_UNACK_COUNT'', tag0 (PInt 0)),
      (''HIGHEST_ALARM_PRI'', tag0 (PInt 0))]"

text \<open>A tag database as the input scan leaves it on a unit that is lined up and pumping:
  inlet and outlet valves open, divert valve confirmed at divert, pump running, and the
  given BS&W probe reading.\<close>

definition pumping_inputs :: "real \<Rightarrow> DataStore" where
  "pumping_inputs bsw =
     ds_write 0 ''AI_BSW_PROBE'' (PFloat bsw)
       (ds_write 0 ''DI_PUMP_RUNNING'' (PBool True)
         (ds_write 0 ''DI_DIVERT_DIVERT'' (PBool True)
           (ds_write 0 ''DI_OUTLET_VLV_OPEN'' (PBool True)
             (ds_write 0 ''DI_INLET_VLV_OPEN'' (PBool True) DataStore_init))))"

text \<open>Projections of the result of an operation that may raise: the value of a tag in the
  resulting tag database, and the resulting module state.\<close>

definition read_after :: "(DataStore \<times> 'a) option \<Rightarrow> string \<Rightarrow> pyval option" where
  "read_after r tag = map_option (\<lambda>(ds, m). ds_read ds tag) r"

definition state_after :: "(DataStore \<times> 'a) option \<Rightarrow> 'a option" where
  "state_after r = map_option snd r"

section \<open>Meter proving\<close>

datatype ProvingState = PS_IDLE | PS_SETUP | PS_RUNNING | PS_CALCULATING | PS_COMPLETE | PS_FAILED

record ProvingRun =
  pr_start_time :: real
  pr_end_time :: real
  meter_pulses :: pyval
  prover_volume_bbl :: real
  temperature_f :: pyval
  pressure_psi :: pyval
  meter_factor :: real

definition ProvingRun_init :: ProvingRun where
  "ProvingRun_init =
     \<lparr>pr_start_time = 0, pr_end_time = 0, meter_pulses = PInt 0, prover_volume_bbl = 0,
      temperature_f = PFloat 60, pressure_psi = PFloat 0, meter_factor = 0\<rparr>"

record ProvingManager =
  pm_state :: ProvingState
  runs :: "ProvingRun list"
  current_run :: "ProvingRun option"
  pm_state_entry_time :: real
  result_meter_factor :: real
  result_repeatability :: real

definition ProvingManager_init :: ProvingManager where
  "ProvingManager_init =
     \<lparr>pm_state = PS_IDLE, runs = [], current_run = None, pm_state_entry_time = 0,
      result_meter_factor = 0, result_repeatability = 0\<rparr>"

text \<open>Python subtraction of two stored numbers: integers (and bools) subtract as integers,
  anything else numeric as floats; \<open>None\<close> where Python raises.\<close>

fun int_like :: "pyval \<Rightarrow> int option" where
  "int_like (PBool b) = Some (if b then 1 else 0)"
| "int_like (PInt i) = Some i"
| "int_like v = None"

definition py_sub :: "pyval \<Rightarrow> pyval \<Rightarrow> pyval option" where
  "py_sub a b =
     (case (int_like a, int_like b) of
        (Some i, Some j) \<Rightarrow> Some (PInt (i - j))
      | _ \<Rightarrow> (case (num a, num b) of
                (Some x, Some y) \<Rightarrow> Some (PFloat (x - y))
              | _ \<Rightarrow> None))"

definition start_proving :: "real \<Rightarrow> ProvingManager \<Rightarrow> ProvingManager" where
  "start_proving now pm =
     pm\<lparr>pm_state := PS_SETUP, pm_state_entry_time := now, runs := [], current_run := None\<rparr>"

definition start_run :: "real \<Rightarrow> DataStore \<Rightarrow> ProvingManager \<Rightarrow> ProvingManager" where
  "start_run now ds pm =
     pm\<lparr>current_run := Some (ProvingRun_init\<lparr>pr_start_time := now,
                                 meter_pulses := ds_read ds ''PI_METER_PULSE'',
                                 temperature_f := ds_read ds ''AI_METER_TEMP'',
                                 pressure_psi := ds_read ds ''AI_OUTLET_PRESS''\<rparr>),
        pm_state := PS_RUNNING\<rparr>"

definition handle_setup :: "real \<Rightarrow> DataStore \<Rightarrow> ProvingManager \<Rightarrow> DataStore \<times> ProvingManager" where
  "handle_setup now ds pm =
     (let ds1 = ds_write now ''DO_PROVER_VLV_CMD'' (PBool True) ds
      in if truthy (ds_read ds1 ''DI_PROVER_VLV_OPEN'') then (ds1, start_run now ds1 pm)
         else if now - pm_state_entry_time pm > 30
         then (ds_write now ''DO_PROVER_VLV_CMD'' (PBool False) ds1, pm\<lparr>pm_state := PS_FAILED\<rparr>)
         else (ds1, pm))"

definition end_run :: "real \<Rightarrow> Setpoints \<Rightarrow> DataStore \<Rightarrow> ProvingRun \<Rightarrow> ProvingManager \<Rightarrow> ProvingManager option" where
  "end_run now sp ds run0 pm =
     do {
       pulses \<leftarrow> py_sub (ds_read ds ''PI_METER_PULSE'') (meter_pulses run0);
       p \<leftarrow> num pulses;
       let run1 = run0\<lparr>pr_end_time := now, meter_pulses := pulses, prover_volume_bbl := 10\<rparr>;
       let k_factor = meter_k_factor sp;
       let run2 = (if k_factor > 0 \<and> p > 0
                   then run1\<lparr>meter_factor := prover_volume_bbl run1 / (p / k_factor)\<rparr>
                   else run1\<lparr>meter_factor := 1\<rparr>);
       let pm1 = pm\<lparr>runs := runs pm @ [run2], current_run := Some run2\<rparr>;
       Some (if int (length (runs pm1)) \<ge> prove_num_runs sp
             then pm1\<lparr>pm_state := PS_CALCULATING\<rparr>
             else start_run now ds pm1)
     }"

text \<open>A proving run completes 60 seconds after it started. Reading the start time of a
  missing current run raises.\<close>

definition handle_proving_running :: "real \<Rightarrow> Setpoints \<Rightarrow> DataStore \<Rightarrow> ProvingManager \<Rightarrow> ProvingManager option" where
  "handle_proving_running now sp ds pm =
     (case current_run pm of
        None \<Rightarrow> None
      | Some run0 \<Rightarrow> if now - pr_start_time run0 \<ge> 60 then end_run now sp ds run0 pm else Some pm)"

definition handle_calculating :: "real \<Rightarrow> Setpoints \<Rightarrow> DataStore \<Rightarrow> ProvingManager \<Rightarrow> DataStore \<times> ProvingManager" where
  "handle_calculating now sp ds pm =
     (case map meter_factor (runs pm) of
        [] \<Rightarrow> (ds, pm\<lparr>pm_state := PS_FAILED\<rparr>)
      | m # ms \<Rightarrow>
         (let meter_factors = m # ms;
              avg_mf = sum_list meter_factors / real (length meter_factors);
              mf_range = foldl max m ms - foldl min m ms;
              repeatability = (if avg_mf \<noteq> 0 then (mf_range / avg_mf) * 100 else 0);
              pm1 = pm\<lparr>result_meter_factor := py_round avg_mf 4,
                        result_repeatability := py_round repeatability 4\<rparr>
          in if repeatability > prove_repeatability_pct sp then (ds, pm1\<lparr>pm_state := PS_FAILED\<rparr>)
             else if \<not> (prove_meter_factor_min sp \<le> avg_mf \<and> avg_mf \<le> prove_meter_factor_max sp)
             then (ds, pm1\<lparr>pm_state := PS_FAILED\<rparr>)
             else (ds_write now ''METER_FACTOR'' (PFloat (result_meter_factor pm1)) ds,
                   pm1\<lparr>pm_state := PS_COMPLETE\<rparr>)))"

definition proving_execute ::
  "real \<Rightarrow> Setpoints \<Rightarrow> DataStore \<Rightarrow> ProvingManager \<Rightarrow> (DataStore \<times> ProvingManager) option"
where
  "proving_execute now sp ds pm =
     (case pm_state pm of
        PS_IDLE \<Rightarrow> Some (ds, pm)
      | PS_SETUP \<Rightarrow> Some (handle_setup now ds pm)
      | PS_RUNNING \<Rightarrow> map_option (Pair ds) (handle_proving_running now sp ds pm)
      | PS_CALCULATING \<Rightarrow> Some (handle_calculating now sp ds pm)
      | PS_COMPLETE \<Rightarrow> Some (ds_write now ''DO_PROVER_VLV_CMD'' (PBool False) ds, pm)
      | PS_FAILED \<Rightarrow> Some (ds_write now ''DO_PROVER_VLV_CMD'' (PBool False) ds, pm))"

section \<open>State machine\<close>

datatype LACTState = IDLE | STARTUP | RUNNING | DIVERT | PROVING | SHUTDOWN | E_STOP

fun state_value :: "LACTState \<Rightarrow> string" where
  "state_value IDLE = ''IDLE''"
| "state_value STARTUP = ''STARTUP''"
| "state_value RUNNING = ''RUNNING''"
| "state_value DIVERT = ''DIVERT''"
| "state_value PROVING = ''PROVING''"
| "state_value SHUTDOWN = ''SHUTDOWN''"
| "state_value E_STOP = ''E_STOP''"

text \<open>The table of permitted transitions.\<close>

fun TRANSITIONS :: "LACTState \<Rightarrow> LACTState list" where
  "TRANSITIONS IDLE = [STARTUP, E_STOP]"
| "TRANSITIONS STARTUP = [RUNNING, IDLE, E_STOP]"
| "TRANSITIONS RUNNING = [DIVERT, PROVING, SHUTDOWN, E_STOP]"
| "TRANSITIONS DIVERT = [RUNNING, SHUTDOWN, E_STOP]"
| "TRANSITIONS PROVING = [RUNNING, SHUTDOWN, E_STOP]"
| "TRANSITIONS SHUTDOWN = [IDLE, E_STOP]"
| "TRANSITIONS E_STOP = [IDLE]"

text \<open>The lines that \<^verbatim>\<open>_transition\<close> writes to the log: a performed transition
  (\<^verbatim>\<open>State transition: prev -> target\<close>) or a refused one
  (\<^verbatim>\<open>Illegal transition state -> target\<close>).\<close>

datatype log_event = LogTransition LACTState LACTState | LogIllegal LACTState LACTState

record LACTStateMachine =
  state :: LACTState
  state_entry_time :: real
  startup_step :: int
  shutdown_step :: int
  request_state :: "LACTState option"
  sm_log :: "log_event list"

definition LACTStateMachine_init :: "real \<Rightarrow> LACTStateMachine" where
  "LACTStateMachine_init now =
     \<lparr>state = IDLE, state_entry_time = now, startup_step = 0, shutdown_step = 0,
      request_state = None, sm_log = []\<rparr>"

definition time_in_state :: "real \<Rightarrow> LACTStateMachine \<Rightarrow> real" where
  "time_in_state now sm = now - state_entry_time sm"

definition request_transition :: "LACTState \<Rightarrow> LACTStateMachine \<Rightarrow> LACTStateMachine" where
  "request_transition target sm = sm\<lparr>request_state := Some target\<rparr>"

definition transition ::
  "real \<Rightarrow> LACTState \<Rightarrow> DataStore \<Rightarrow> LACTStateMachine \<Rightarrow> bool \<times> DataStore \<times> LACTStateMachine"
where
  "transition now target ds sm =
     (if target \<notin> set (TRANSITIONS (state sm))
      then (False, ds, sm\<lparr>sm_log := sm_log sm @ [LogIllegal (state sm) target]\<rparr>)
      else (let prev = state sm;
                ds1 = ds_write now ''PREV_STATE'' (PStr (state_value prev)) ds;
                sm1 = sm\<lparr>sm_log := sm_log sm @ [LogTransition prev target],
                         state := target, state_entry_time := now,
                         startup_step := 0, shutdown_step := 0\<rparr>;
                ds2 = ds_write now ''LACT_STATE'' (PStr (state_value target)) ds1
            in (True, ds2, sm1)))"

text \<open>
  The result of one state machine cycle. A handler that compares a tag value which is not a
  number raises \<^verbatim>\<open>TypeError\<close>; the tag database and the machine are then left as they were
  at that point, which \<open>Raised\<close> carries.
\<close>

datatype sm_result = Done DataStore LACTStateMachine | Raised DataStore LACTStateMachine

fun result_ds :: "sm_result \<Rightarrow> DataStore" where
  "result_ds (Done ds sm) = ds"
| "result_ds (Raised ds sm) = ds"

fun result_sm :: "sm_result \<Rightarrow> LACTStateMachine" where
  "result_sm (Done ds sm) = sm"
| "result_sm (Raised ds sm) = sm"

text \<open>A handler's call of \<^verbatim>\<open>_transition\<close>, its return value dropped.\<close>

definition do_transition :: "real \<Rightarrow> LACTState \<Rightarrow> DataStore \<Rightarrow> LACTStateMachine \<Rightarrow> sm_result" where
  "do_transition now target ds sm = (case transition now target ds sm of (ok, ds', sm') \<Rightarrow> Done ds' sm')"

definition handle_idle :: "real \<Rightarrow> DataStore \<Rightarrow> LACTStateMachine \<Rightarrow> sm_result" where
  "handle_idle now ds sm =
     (let ds1 = ds_write now ''DO_PUMP_START'' (PBool False) ds;
          ds2 = ds_write now ''DO_SAMPLE_SOL'' (PBool False) ds1;
          ds3 = ds_write now ''DO_SAMPLE_MIX_PUMP'' (PBool False) ds2;
          ds4 = ds_write now ''DO_STATUS_GREEN'' (PBool False) ds3
      in Done ds4 sm)"

definition handle_startup :: "real \<Rightarrow> Setpoints \<Rightarrow> DataStore \<Rightarrow> LACTStateMachine \<Rightarrow> sm_result" where
  "handle_startup now sp ds sm =
     (if startup_step sm = 0 then
        (let inlet_open = ds_read ds ''DI_INLET_VLV_OPEN'';
             outlet_open = ds_read ds ''DI_OUTLET_VLV_OPEN''
         in if \<not> truthy inlet_open \<or> \<not> truthy outlet_open
            then do_transition now IDLE ds sm
            else Done ds (sm\<lparr>startup_step := 1\<rparr>))
      else if startup_step sm = 1 then
        Done (ds_write now ''DO_DIVERT_CMD'' (PBool True) ds) (sm\<lparr>startup_step := 2\<rparr>)
      else if startup_step sm = 2 then
        (if truthy (ds_read ds ''DI_DIVERT_DIVERT'') then Done ds (sm\<lparr>startup_step := 3\<rparr>)
         else if time_in_state now sm > divert_travel_timeout_sec sp
         then do_transition now IDLE ds sm
         else Done ds sm)
      else if startup_step sm = 3 then
        (if time_in_state now sm > pump_start_delay_sec sp
         then Done (ds_write now ''DO_PUMP_START'' (PBool True) ds) (sm\<lparr>startup_step := 4\<rparr>)
         else Done ds sm)
      else if startup_step sm = 4 then
        (if truthy (ds_read ds ''DI_PUMP_RUNNING'') then Done ds (sm\<lparr>startup_step := 5\<rparr>)
         else if time_in_state now sm > pump_start_delay_sec sp + 10
         then do_transition now IDLE (ds_write now ''DO_PUMP_START'' (PBool False) ds) sm
         else Done ds sm)
      else if startup_step sm = 5 then
        (if time_in_state now sm > pump_start_delay_sec sp + bsw_sample_delay_sec sp + 10
         then (case num (ds_read ds ''AI_BSW_PROBE'') of
                 None \<Rightarrow> Raised ds sm
               | Some bsw \<Rightarrow>
                   if bsw < bsw_divert_pct sp
                   then (let ds1 = ds_write now ''DO_DIVERT_CMD'' (PBool False) ds;
                             ds2 = ds_write now ''DO_STATUS_GREEN'' (PBool True) ds1;
                             ds3 = ds_write now ''BATCH_START_TIME'' (PFloat now) ds2
                         in do_transition now RUNNING ds3 sm)
                   else do_transition now DIVERT ds sm)
         else Done ds sm)
      else Done ds sm)"

definition handle_running :: "real \<Rightarrow> DataStore \<Rightarrow> LACTStateMachine \<Rightarrow> sm_result" where
  "handle_running now ds sm =
     (let ds1 = ds_write now ''DO_STATUS_GREEN'' (PBool True) ds;
          batch_start = ds_read ds1 ''BATCH_START_TIME''
      in if truthy batch_start
         then (case num batch_start of
                 None \<Rightarrow> Raised ds1 sm
               | Some b \<Rightarrow> Done (ds_write now ''BATCH_ELAPSED_SEC'' (PFloat (now - b)) ds1) sm)
         else Done ds1 sm)"

definition handle_divert :: "real \<Rightarrow> Setpoints \<Rightarrow> DataStore \<Rightarrow> LACTStateMachine \<Rightarrow> sm_result" where
  "handle_divert now sp ds sm =
     (let ds1 = ds_write now ''DO_DIVERT_CMD'' (PBool True) ds;
          ds2 = ds_write now ''DO_STATUS_GREEN'' (PBool False) ds1
      in case num (ds_read ds2 ''AI_BSW_PROBE'') of
           None \<Rightarrow> Raised ds2 sm
         | Some bsw \<Rightarrow>
             if bsw < bsw_divert_pct sp
             then (if time_in_state now sm > bsw_divert_delay_sec sp
                   then do_transition now RUNNING (ds_write now ''DO_DIVERT_CMD'' (PBool False) ds2) sm
                   else Done ds2 sm)
             else Done ds2 sm)"

definition handle_proving :: "real \<Rightarrow> DataStore \<Rightarrow> LACTStateMachine \<Rightarrow> sm_result" where
  "handle_proving now ds sm = Done (ds_write now ''DO_STATUS_GREEN'' (PBool True) ds) sm"

definition handle_shutdown :: "real \<Rightarrow> Setpoints \<Rightarrow> DataStore \<Rightarrow> LACTStateMachine \<Rightarrow> sm_result" where
  "handle_shutdown now sp ds sm =
     (if shutdown_step sm = 0 then
        (let ds1 = ds_write now ''DO_DIVERT_CMD'' (PBool True) ds;
             ds2 = ds_write now ''DO_SAMPLE_SOL'' (PBool False) ds1;
             ds3 = ds_write now ''DO_SAMPLE_MIX_PUMP'' (PBool False) ds2
         in Done ds3 (sm\<lparr>shutdown_step := 1\<rparr>))
      else if shutdown_step sm = 1 then
        (if time_in_state now sm > pump_stop_delay_sec sp
         then Done (ds_write now ''DO_PUMP_START'' (PBool False) ds) (sm\<lparr>shutdown_step := 2\<rparr>)
         else Done ds sm)
      else if shutdown_step sm = 2 then
        (if \<not> truthy (ds_read ds ''DI_PUMP_RUNNING'')
         then do_transition now IDLE (ds_write now ''DO_STATUS_GREEN'' (PBool False) ds) sm
         else if time_in_state now sm > pump_stop_delay_sec sp + 15
         then do_transition now IDLE (ds_write now ''DO_STATUS_GREEN'' (PBool False) ds) sm
         else Done ds sm)
      else Done ds sm)"

definition handle_estop :: "real \<Rightarrow> DataStore \<Rightarrow> LACTStateMachine \<Rightarrow> sm_result" where
  "handle_estop now ds sm =
     (let ds1 = ds_write now ''DO_PUMP_START'' (PBool False) ds;
          ds2 = ds_write now ''DO_DIVERT_CMD'' (PBool True) ds1;
          ds3 = ds_write now ''DO_SAMPLE_SOL'' (PBool False) ds2;
          ds4 = ds_write now ''DO_SAMPLE_MIX_PUMP'' (PBool False) ds3;
          ds5 = ds_write now ''DO_PROVER_VLV_CMD'' (PBool False) ds4;
          ds6 = ds_write now ''DO_STATUS_GREEN'' (PBool False) ds5;
          ds7 = ds_write now ''DO_ALARM_BEACON'' (PBool True) ds6;
          ds8 = ds_write now ''DO_ALARM_HORN'' (PBool True) ds7
      in if \<not> truthy (ds_read ds8 ''DI_ESTOP'')
         then (if time_in_state now sm > 2 then do_transition now IDLE ds8 sm else Done ds8 sm)
         else Done ds8 sm)"

text \<open>The three phases of a cycle: the pending request, the emergency-stop override, and
  the dispatch to the handler of the current state.\<close>

definition apply_request ::
  "real \<Rightarrow> DataStore \<Rightarrow> LACTStateMachine \<Rightarrow> bool \<times> DataStore \<times> LACTStateMachine"
where
  "apply_request now ds sm =
     (case request_state sm of
        None \<Rightarrow> (False, ds, sm)
      | Some target \<Rightarrow>
          (case transition now target ds sm of
             (ok, ds', sm') \<Rightarrow> (ok, ds', sm'\<lparr>request_state := None\<rparr>)))"

definition estop_override ::
  "real \<Rightarrow> bool \<times> DataStore \<times> LACTStateMachine \<Rightarrow> bool \<times> DataStore \<times> LACTStateMachine"
where
  "estop_override now r =
     (case r of (transitioned, ds, sm) \<Rightarrow>
        if truthy (ds_read ds ''DI_ESTOP'') \<and> state sm \<noteq> E_STOP
        then transition now E_STOP ds sm
        else (transitioned, ds, sm))"

definition dispatch :: "real \<Rightarrow> Setpoints \<Rightarrow> DataStore \<Rightarrow> LACTStateMachine \<Rightarrow> sm_result" where
  "dispatch now sp ds sm =
     (case state sm of
        IDLE \<Rightarrow> handle_idle now ds sm
      | STARTUP \<Rightarrow> handle_startup now sp ds sm
      | RUNNING \<Rightarrow> handle_running now ds sm
      | DIVERT \<Rightarrow> handle_divert now sp ds sm
      | PROVING \<Rightarrow> handle_proving now ds sm
      | SHUTDOWN \<Rightarrow> handle_shutdown now sp ds sm
      | E_STOP \<Rightarrow> handle_estop now ds sm)"

definition sm_execute :: "real \<Rightarrow> Setpoints \<Rightarrow> DataStore \<Rightarrow> LACTStateMachine \<Rightarrow> sm_result" where
  "sm_execute now sp ds sm =
     (case estop_override now (apply_request now ds sm) of
        (transitioned, ds2, sm2) \<Rightarrow>
          if transitioned then Done ds2 sm2 else dispatch now sp ds2 sm2)"

text \<open>
  Executions of the state machine: any interleaving of transition requests and cycles. A
  cycle runs at some clock reading, with some setpoints, on some contents of the tag
  database (which the other modules, the inputs and the operator change between cycles).
\<close>

datatype sm_event = Request LACTState | Cycle real Setpoints DataStore

fun sm_event_step :: "LACTStateMachine \<Rightarrow> sm_event \<Rightarrow> LACTStateMachine" where
  "sm_event_step sm (Request target) = request_transition target sm"
| "sm_event_step sm (Cycle now sp ds) = result_sm (sm_execute now sp ds sm)"

text \<open>
  A log is consistent with a start state and an end state when it starts at the start
  state, every performed transition leaves the state current at that point for a state that
  the table permits from it, every refused transition is one the table does not permit and
  leaves the current state as it is, and the log ends at the end state.
\<close>

fun log_consistent :: "LACTState \<Rightarrow> log_event list \<Rightarrow> LACTState \<Rightarrow> bool" where
  "log_consistent s [] s' = (s = s')"
| "log_consistent s (LogTransition a b # l) s' =
     (a = s \<and> b \<in> set (TRANSITIONS a) \<and> log_consistent b l s')"
| "log_consistent s (LogIllegal a b # l) s' =
     (a = s \<and> b \<notin> set (TRANSITIONS a) \<and> log_consistent s l s')"

text \<open>Invariants of the state machine used below: the log is consistent from a start state
  to the current state; one machine is at the same state as another or at a state permitted
  from it; and what a handler may do to the machine: change the step counters, or apply
  the transition function once.\<close>

definition log_ok :: "LACTState \<Rightarrow> LACTStateMachine \<Rightarrow> bool" where
  "log_ok s0 sm = log_consistent s0 (sm_log sm) (state sm)"

definition step_ok :: "LACTStateMachine \<Rightarrow> LACTStateMachine \<Rightarrow> bool" where
  "step_ok sm sm' = (state sm' = state sm \<or> state sm' \<in> set (TRANSITIONS (state sm)))"

definition handler_post :: "LACTStateMachine \<Rightarrow> LACTStateMachine \<Rightarrow> bool" where
  "handler_post sm sm' =
     ((\<exists>x y. sm' = sm\<lparr>startup_step := x, shutdown_step := y\<rparr>)
      \<or> (\<exists>now target ds. sm' = snd (snd (transition now target ds sm))))"

section \<open>I/O handler\<close>

record IOPoint =
  address :: int
  raw_min :: real
  raw_max :: real
  eng_min :: real
  eng_max :: real

record IOMap =
  digital_inputs :: "(string \<times> IOPoint) list"
  digital_outputs :: "(string \<times> IOPoint) list"
  analog_inputs :: "(string \<times> IOPoint) list"
  analog_outputs :: "(string \<times> IOPoint) list"
  pulse_inputs :: "(string \<times> IOPoint) list"

text \<open>
  The reading half of the I/O backend, as one cycle sees it: what each read primitive
  returns for an address, \<open>None\<close> when the call raises. The writing half is modelled by
  the list of commands that \<^verbatim>\<open>write_outputs\<close> issues.
\<close>

record IOBackend =
  read_digital :: "int \<Rightarrow> pyval option"
  read_analog :: "int \<Rightarrow> pyval option"
  read_pulse_count :: "int \<Rightarrow> pyval option"

datatype io_command = WriteDigital int bool | WriteAnalog int int

definition scale_input :: "real \<Rightarrow> IOPoint \<Rightarrow> real" where
  "scale_input raw point =
     (let raw_range = raw_max point - raw_min point;
          eng_range = eng_max point - eng_min point
      in if raw_range = 0 then eng_min point
         else eng_min point + ((raw - raw_min point) / raw_range) * eng_range)"

text \<open>Python's \<^verbatim>\<open>int(x)\<close> on a float: truncation towards zero.\<close>

definition py_int :: "real \<Rightarrow> int" where
  "py_int x = (if x \<ge> 0 then \<lfloor>x\<rfloor> else \<lceil>x\<rceil>)"

definition scale_output :: "real \<Rightarrow> IOPoint \<Rightarrow> int" where
  "scale_output eng_value point =
     (let eng_range = eng_max point - eng_min point;
          raw_range = raw_max point - raw_min point
      in if eng_range = 0 then py_int (raw_min point)
         else (let proportion = max 0 (min 1 ((eng_value - eng_min point) / eng_range))
               in py_int (raw_min point + proportion * raw_range)))"

definition read_digital_input :: "real \<Rightarrow> IOBackend \<Rightarrow> DataStore \<Rightarrow> string \<times> IOPoint \<Rightarrow> DataStore" where
  "read_digital_input now backend ds tp =
     (case read_digital backend (address (snd tp)) of
        Some raw \<Rightarrow> ds_write now (fst tp) (PBool (truthy raw)) ds
      | None \<Rightarrow> ds_write_q now (fst tp) (PBool False) ''BAD'' ds)"

definition read_analog_input :: "real \<Rightarrow> IOBackend \<Rightarrow> DataStore \<Rightarrow> string \<times> IOPoint \<Rightarrow> DataStore" where
  "read_analog_input now backend ds tp =
     (case Option.bind (read_analog backend (address (snd tp))) num of
        Some raw \<Rightarrow> ds_write now (fst tp) (PFloat (py_round (scale_input raw (snd tp)) 3)) ds
      | None \<Rightarrow> ds_write_q now (fst tp) (PFloat 0) ''BAD'' ds)"

definition read_pulse_input :: "real \<Rightarrow> IOBackend \<Rightarrow> DataStore \<Rightarrow> string \<times> IOPoint \<Rightarrow> DataStore" where
  "read_pulse_input now backend ds tp =
     (case read_pulse_count backend (address (snd tp)) of
        Some count \<Rightarrow> ds_write now (fst tp) count ds
      | None \<Rightarrow> ds_write_q now (fst tp) (PInt 0) ''BAD'' ds)"

definition read_inputs :: "real \<Rightarrow> IOBackend \<Rightarrow> IOMap \<Rightarrow> DataStore \<Rightarrow> DataStore" where
  "read_inputs now backend io_map ds =
     (let ds1 = foldl (read_digital_input now backend) ds (digital_inputs io_map);
          ds2 = foldl (read_analog_input now backend) ds1 (analog_inputs io_map)
      in foldl (read_pulse_input now backend) ds2 (pulse_inputs io_map))"

text \<open>The commands of one output pass. A tag whose value cannot be converted yields no
  command: the conversion raises and the exception is swallowed.\<close>

definition write_outputs :: "DataStore \<Rightarrow> IOMap \<Rightarrow> io_command list" where
  "write_outputs ds io_map =
     map (\<lambda>(tag, point). WriteDigital (address point) (truthy (ds_read ds tag)))
       (digital_outputs io_map)
     @ concat (map (\<lambda>(tag, point).
         case num (py_or (ds_read ds tag) (PInt 0)) of
           None \<Rightarrow> []
         | Some eng_value \<Rightarrow> [WriteAnalog (address point) (scale_output eng_value point)])
       (analog_outputs io_map))"

definition io_point :: "int \<Rightarrow> real \<Rightarrow> real \<Rightarrow> IOPoint" where
  "io_point a lo hi = \<lparr>address = a, raw_min = 0, raw_max = 4095, eng_min = lo, eng_max = hi\<rparr>"

text \<open>The default I/O map of the unit.\<close>

definition IOMap_default :: IOMap where
  "IOMap_default =
     \<lparr>digital_inputs =
        [(''DI_INLET_VLV_OPEN'', io_point 0 0 100), (''DI_INLET_VLV_CLOSED'', io_point 1 0 100),
         (''DI_STRAINER_HI_DP'', io_point 2 0 100), (''DI_PUMP_RUNNING'', io_point 3 0 100),
         (''DI_PUMP_OVERLOAD'', io_point 4 0 100), (''DI_DIVERT_SALES'', io_point 5 0 100),
         (''DI_DIVERT_DIVERT'', io_point 6 0 100), (''DI_SAMPLE_POT_HI'', io_point 7 0 100),
         (''DI_SAMPLE_POT_LO'', io_point 8 0 100), (''DI_PROVER_VLV_OPEN'', io_point 9 0 100),
         (''DI_AIR_ELIM_FLOAT'', io_point 10 0 100), (''DI_OUTLET_VLV_OPEN'', io_point 11 0 100),
         (''DI_ESTOP'', io_point 12 0 100)],
      digital_outputs =
        [(''DO_PUMP_START'', io_point 0 0 100), (''DO_DIVERT_CMD'', io_point 1 0 100),
         (''DO_SAMPLE_SOL'', io_point 2 0 100), (''DO_SAMPLE_MIX_PUMP'', io_point 3 0 100),
         (''DO_PROVER_VLV_CMD'', io_point 4 0 100), (''DO_ALARM_BEACON'', io_point 5 0 100),
         (''DO_ALARM_HORN'', io_point 6 0 100), (''DO_STATUS_GREEN'', io_point 7 0 100)],
      analog_inputs =
        [(''AI_INLET_PRESS'', io_point 0 0 300), (''AI_LOOP_HI_PRESS'', io_point 1 0 300),
         (''AI_STRAINER_DP'', io_point 2 0 50), (''AI_BSW_PROBE'', io_point 3 0 5),
         (''AI_METER_TEMP'', io_point 4 (- 20) 200), (''AI_TEST_THERMO'', io_point 5 (- 20) 200),
         (''AI_OUTLET_PRESS'', io_point 6 0 300)],
      analog_outputs =
        [(''AO_BP_SALES_SP'', io_point 0 0 150), (''AO_BP_DIVERT_SP'', io_point 1 0 150)],
      pulse_inputs = [(''PI_METER_PULSE'', io_point 0 0 1)]\<rparr>"

section \<open>Safety manager: the interlock checks\<close>

text \<open>Comparisons of a tag value with a number; \<open>None\<close> where Python raises.\<close>

definition py_lt :: "pyval \<Rightarrow> real \<Rightarrow> bool option" where
  "py_lt v r = map_option (\<lambda>x. x < r) (num v)"

definition py_gt :: "pyval \<Rightarrow> real \<Rightarrow> bool option" where
  "py_gt v r = map_option (\<lambda>x. x > r) (num v)"

definition py_ge :: "pyval \<Rightarrow> real \<Rightarrow> bool option" where
  "py_ge v r = map_option (\<lambda>x. x \<ge> r) (num v)"

text \<open>A check that activates its alarm when the condition holds and deactivates it
  otherwise.\<close>

definition set_alarm :: "bool \<Rightarrow> string \<Rightarrow> pyval \<Rightarrow> real \<Rightarrow> SafetyManager \<Rightarrow> SafetyManager" where
  "set_alarm cond t v now m = (if cond then sm_activate t v now m else sm_deactivate t m)"

definition check_estop :: "real \<Rightarrow> DataStore \<Rightarrow> SafetyManager \<Rightarrow> SafetyManager" where
  "check_estop now ds m = set_alarm (truthy (ds_read ds ''DI_ESTOP'')) ''ALM_ESTOP'' (PFloat 0) now m"

definition check_pump :: "real \<Rightarrow> DataStore \<Rightarrow> SafetyManager \<Rightarrow> SafetyManager" where
  "check_pump now ds m =
     (let m1 = set_alarm (truthy (ds_read ds ''DI_PUMP_OVERLOAD'')) ''ALM_PUMP_OVERLOAD'' (PFloat 0) now m;
          pump_cmd = ds_read ds ''DO_PUMP_START'';
          pump_run = ds_read ds ''DI_PUMP_RUNNING''
      in if truthy pump_cmd \<and> \<not> truthy pump_run
         then (case read_with_quality ds ''DO_PUMP_START'' of
                 Some cmd_tag \<Rightarrow>
                   if now - tv_timestamp cmd_tag > 10
                   then sm_activate ''ALM_PUMP_FAIL_START'' (PFloat 0) now m1
                   else m1
               | None \<Rightarrow> m1)
         else sm_deactivate ''ALM_PUMP_FAIL_START'' m1)"

definition check_bsw :: "real \<Rightarrow> Setpoints \<Rightarrow> DataStore \<Rightarrow> SafetyManager \<Rightarrow> SafetyManager option" where
  "check_bsw now sp ds m =
     (let bsw = ds_read ds ''AI_BSW_PROBE'';
          bad = (case read_with_quality ds ''AI_BSW_PROBE'' of
                   Some q \<Rightarrow> tv_quality q = ''BAD'' | None \<Rightarrow> False);
          m1 = set_alarm bad ''ALM_BSW_PROBE_FAIL'' (PFloat 0) now m
      in do {
           hi \<leftarrow> py_ge bsw (bsw_alarm_pct sp);
           let m2 = set_alarm hi ''ALM_BSW_HIGH'' bsw now m1;
           dv \<leftarrow> py_ge bsw (bsw_divert_pct sp);
           Some (if dv then (sm_activate ''ALM_BSW_DIVERT'' bsw now m2)\<lparr>divert_requested := True\<rparr>
                 else sm_deactivate ''ALM_BSW_DIVERT'' m2)
         })"

definition check_pressures :: "real \<Rightarrow> Setpoints \<Rightarrow> DataStore \<Rightarrow> SafetyManager \<Rightarrow> SafetyManager option" where
  "check_pressures now sp ds m =
     (let inlet_p = ds_read ds ''AI_INLET_PRESS'';
          loop_p = ds_read ds ''AI_LOOP_HI_PRESS'';
          outlet_p = ds_read ds ''AI_OUTLET_PRESS'';
          strainer_dp = ds_read ds ''AI_STRAINER_DP'';
          pump_running = truthy (ds_read ds ''DI_PUMP_RUNNING'')
      in do {
           m1 \<leftarrow> (if pump_running
                  then map_option (\<lambda>c. set_alarm c ''ALM_INLET_PRESS_LO'' inlet_p now m)
                         (py_lt inlet_p (inlet_press_lo_psi sp))
                  else Some m);
           c2 \<leftarrow> py_gt inlet_p (inlet_press_hi_psi sp);
           let m2 = set_alarm c2 ''ALM_INLET_PRESS_HI'' inlet_p now m1;
           c3 \<leftarrow> py_gt loop_p (loop_press_hi_psi sp);
           let m3 = set_alarm c3 ''ALM_LOOP_PRESS_HI'' loop_p now m2;
           m4 \<leftarrow> (if pump_running
                  then map_option (\<lambda>c. set_alarm c ''ALM_OUTLET_PRESS_LO'' outlet_p now m3)
                         (py_lt outlet_p (outlet_press_lo_psi sp))
                  else Some m3);
           c5 \<leftarrow> py_gt strainer_dp (strainer_dp_hi_psi sp);
           Some (set_alarm c5 ''ALM_STRAINER_DP_HI'' strainer_dp now m4)
         })"

definition check_temperatures :: "real \<Rightarrow> Setpoints \<Rightarrow> DataStore \<Rightarrow> SafetyManager \<Rightarrow> SafetyManager option" where
  "check_temperatures now sp ds m =
     (let meter_temp = ds_read ds ''AI_METER_TEMP'';
          test_temp = ds_read ds ''AI_TEST_THERMO''
      in do {
           c1 \<leftarrow> py_lt meter_temp (temp_lo_alarm_f sp);
           let m1 = set_alarm c1 ''ALM_TEMP_LO'' meter_temp now m;
           c2 \<leftarrow> py_gt meter_temp (temp_hi_alarm_f sp);
           let m2 = set_alarm c2 ''ALM_TEMP_HI'' meter_temp now m1;
           a \<leftarrow> num meter_temp;
           b \<leftarrow> num test_temp;
           let delta = \<bar>a - b\<bar>;
           Some (set_alarm (delta > temp_max_delta_f sp) ''ALM_TEMP_DELTA'' (PFloat delta) now m2)
         })"

definition check_flow :: "real \<Rightarrow> Setpoints \<Rightarrow> DataStore \<Rightarrow> SafetyManager \<Rightarrow> SafetyManager option" where
  "check_flow now sp ds m =
     (let flow_rate = ds_read ds ''FLOW_RATE_BPH'';
          pump_running = truthy (ds_read ds ''DI_PUMP_RUNNING'')
      in if \<not> pump_running
         then Some (sm_deactivate ''ALM_NO_FLOW''
                (sm_deactivate ''ALM_FLOW_HI'' (sm_deactivate ''ALM_FLOW_LO'' m)))
         else do {
           fr \<leftarrow> num flow_rate;
           let m1 = set_alarm (fr < meter_min_flow_bph sp \<and> fr > 0) ''ALM_FLOW_LO'' flow_rate now m;
           let m2 = set_alarm (fr > meter_max_flow_bph sp) ''ALM_FLOW_HI'' flow_rate now m1;
           Some (if fr = 0 \<and> pump_running
                 then (case read_with_quality ds ''DI_PUMP_RUNNING'' of
                         Some pump_tag \<Rightarrow>
                           if now - tv_timestamp pump_tag > meter_no_flow_timeout_sec sp
                           then sm_activate ''ALM_NO_FLOW'' (PFloat 0) now m2
                           else m2
                       | None \<Rightarrow> m2)
                 else sm_deactivate ''ALM_NO_FLOW'' m2)
         })"

definition check_divert_valve :: "real \<Rightarrow> Setpoints \<Rightarrow> DataStore \<Rightarrow> SafetyManager \<Rightarrow> SafetyManager" where
  "check_divert_valve now sp ds m =
     (let cmd = truthy (ds_read ds ''DO_DIVERT_CMD'');
          at_sales = truthy (ds_read ds ''DI_DIVERT_SALES'');
          at_divert = truthy (ds_read ds ''DI_DIVERT_DIVERT'')
      in case read_with_quality ds ''DO_DIVERT_CMD'' of
           Some cmd_tag \<Rightarrow>
             if tv_timestamp cmd_tag > 0
             then (let elapsed = now - tv_timestamp cmd_tag
                   in if cmd \<and> \<not> at_divert \<and> elapsed > divert_travel_timeout_sec sp
                      then sm_activate ''ALM_DIVERT_FAIL'' (PFloat 0) now m
                      else if \<not> cmd \<and> \<not> at_sales \<and> elapsed > divert_travel_timeout_sec sp
                      then sm_activate ''ALM_DIVERT_FAIL'' (PFloat 0) now m
                      else sm_deactivate ''ALM_DIVERT_FAIL'' m)
             else sm_deactivate ''ALM_DIVERT_FAIL'' m
         | None \<Rightarrow> sm_deactivate ''ALM_DIVERT_FAIL'' m)"

definition check_sampler :: "real \<Rightarrow> DataStore \<Rightarrow> SafetyManager \<Rightarrow> SafetyManager" where
  "check_sampler now ds m =
     set_alarm (truthy (ds_read ds ''DI_SAMPLE_POT_HI'')) ''ALM_SAMPLE_POT_FULL'' (PFloat 0) now m"

definition check_air_eliminator :: "real \<Rightarrow> DataStore \<Rightarrow> SafetyManager \<Rightarrow> SafetyManager" where
  "check_air_eliminator now ds m =
     set_alarm (truthy (ds_read ds ''DI_AIR_ELIM_FLOAT'')) ''ALM_GAS_DETECTED'' (PFloat 0) now m"

definition update_alarm_summary :: "real \<Rightarrow> DataStore \<Rightarrow> SafetyManager \<Rightarrow> DataStore" where
  "update_alarm_summary now ds m =
     (let active = get_active_alarms m;
          unack = get_unacknowledged_alarms m;
          highest = (case map (\<lambda>a. priority_value (priority (al_definition a))) active of
                       [] \<Rightarrow> priority_value INFO
                     | p # ps \<Rightarrow> foldl max p ps);
          ds1 = ds_write now ''ALARM_ACTIVE_COUNT'' (PInt (int (length active))) ds;
          ds2 = ds_write now ''ALARM_UNACK_COUNT'' (PInt (int (length unack))) ds1
      in ds_write now ''HIGHEST_ALARM_PRI'' (PInt highest) ds2)"

definition drive_annunciators :: "real \<Rightarrow> DataStore \<Rightarrow> SafetyManager \<Rightarrow> DataStore \<times> SafetyManager" where
  "drive_annunciators now ds m =
     (let unack = get_unacknowledged_alarms m;
          has_annunciate =
            list_ex (\<lambda>a. action_value (action (al_definition a)) \<ge> action_value ACT_ANNUNCIATE) unack;
          ds1 = ds_write now ''DO_ALARM_BEACON'' (PBool has_annunciate) ds;
          (horn_on, m1) =
            (case horn_silence_time m of
               None \<Rightarrow> (has_annunciate, m)
             | Some silence \<Rightarrow>
                 if silence = 0 then (has_annunciate, m)
                 else (let newest = (case map al_timestamp unack of
                                       [] \<Rightarrow> 0
                                     | t # ts \<Rightarrow> foldl max t ts)
                       in if newest > silence
                          then (has_annunciate, m\<lparr>horn_silence_time := None\<rparr>)
                          else (False, m)))
      in (ds_write now ''DO_ALARM_HORN'' (PBool horn_on) ds1, m1))"

definition silence_horn :: "real \<Rightarrow> SafetyManager \<Rightarrow> SafetyManager" where
  "silence_horn now m = m\<lparr>horn_silence_time := Some now\<rparr>"

definition safety_execute ::
  "real \<Rightarrow> Setpoints \<Rightarrow> DataStore \<Rightarrow> SafetyManager \<Rightarrow> (DataStore \<times> SafetyManager) option"
where
  "safety_execute now sp ds m =
     do {
       let m0 = m\<lparr>shutdown_requested := False, divert_requested := False\<rparr>;
       let m1 = check_estop now ds m0;
       let m2 = check_pump now ds m1;
       m3 \<leftarrow> check_bsw now sp ds m2;
       m4 \<leftarrow> check_pressures now sp ds m3;
       m5 \<leftarrow> check_temperatures now sp ds m4;
       m6 \<leftarrow> check_flow now sp ds m5;
       let m7 = check_divert_valve now sp ds m6;
       let m8 = check_sampler now ds m7;
       let m9 = check_air_eliminator now ds m8;
       let ds1 = update_alarm_summary now ds m9;
       Some (drive_annunciators now ds1 m9)
     }"

section \<open>Sampler\<close>

record Sampler =
  last_grab_time :: real
  grab_count :: int
  total_ml :: real
  solenoid_on_time :: real
  solenoid_active :: bool
  mix_running :: bool

definition Sampler_init :: Sampler where
  "Sampler_init =
     \<lparr>last_grab_time = 0, grab_count = 0, total_ml = 0, solenoid_on_time = 0,
      solenoid_active = False, mix_running = False\<rparr>"

definition set_solenoid :: "real \<Rightarrow> bool \<Rightarrow> DataStore \<times> Sampler \<Rightarrow> DataStore \<times> Sampler" where
  "set_solenoid now on r =
     (case r of (ds, s) \<Rightarrow>
        (ds_write now ''DO_SAMPLE_SOL'' (PBool on) ds,
         if \<not> on then s\<lparr>solenoid_active := False\<rparr> else s))"

definition take_grab :: "real \<Rightarrow> Setpoints \<Rightarrow> DataStore \<times> Sampler \<Rightarrow> DataStore \<times> Sampler" where
  "take_grab now sp r =
     (case set_solenoid now True r of (ds1, s1) \<Rightarrow>
        (let s2 = s1\<lparr>solenoid_on_time := now, solenoid_active := True, last_grab_time := now,
                     grab_count := grab_count s1 + 1,
                     total_ml := total_ml s1 + sample_volume_ml sp\<rparr>;
             ds2 = ds_write now ''SAMPLE_TOTAL_GRABS'' (PInt (grab_count s2)) ds1;
             ds3 = ds_write now ''SAMPLE_TOTAL_ML'' (PFloat (py_round (total_ml s2) 1)) ds2
         in (ds3, s2)))"

text \<open>Python's \<^verbatim>\<open>x % 300.0\<close> on floats.\<close>

definition py_fmod :: "real \<Rightarrow> real \<Rightarrow> real" where
  "py_fmod x y = x - y * of_int \<lfloor>x / y\<rfloor>"

definition manage_mixing :: "real \<Rightarrow> Setpoints \<Rightarrow> DataStore \<times> Sampler \<Rightarrow> DataStore \<times> Sampler" where
  "manage_mixing now sp r =
     (case r of (ds, s) \<Rightarrow>
        (let mix_interval = 300;
             cycle_pos = py_fmod now mix_interval;
             should_mix = (cycle_pos < sample_mix_time_sec sp)
         in if should_mix \<noteq> mix_running s
            then (ds_write now ''DO_SAMPLE_MIX_PUMP'' (PBool should_mix) ds,
                  s\<lparr>mix_running := should_mix\<rparr>)
            else (ds, s)))"

definition sampler_execute ::
  "real \<Rightarrow> Setpoints \<Rightarrow> LACTState \<Rightarrow> DataStore \<Rightarrow> Sampler \<Rightarrow> (DataStore \<times> Sampler) option"
where
  "sampler_execute now sp st ds s =
     (if st \<noteq> RUNNING then Some (set_solenoid now False (ds, s))
      else if truthy (ds_read ds ''DI_SAMPLE_POT_HI'') then Some (set_solenoid now False (ds, s))
      else do {
        flow_rate \<leftarrow> num (ds_read ds ''FLOW_RATE_BPH'');
        if flow_rate \<le> 0 then Some (ds, s)
        else do {
          let base_interval = sample_rate_sec sp;
          let time_since_grab = now - last_grab_time s;
          let r1 = (if time_since_grab \<ge> base_interval then take_grab now sp (ds, s) else (ds, s));
          let r2 = (if solenoid_active (snd r1) \<and> now - solenoid_on_time (snd r1) \<ge> 1 / 2
                    then set_solenoid now False r1 else r1);
          Some (manage_mixing now sp r2)
        }
      })"

section \<open>BS&W monitor\<close>

record BSWMonitor =
  readings :: "real list"
  divert_timer_start :: real
  divert_pending :: bool

definition BSWMonitor_init :: BSWMonitor where
  "BSWMonitor_init = \<lparr>readings = [], divert_timer_start = 0, divert_pending = False\<rparr>"

text \<open>Decimal digits of a natural number, and the \<^verbatim>\<open>%.2f\<close> rendering of a real.\<close>

fun digits :: "nat \<Rightarrow> string" where
  "digits n =
     (if n < 10 then [char_of (48 + n)]
      else digits (n div 10) @ [char_of (48 + n mod 10)])"

definition format_2f :: "real \<Rightarrow> string" where
  "format_2f x =
     (let n = round_half_even (\<bar>x\<bar> * 100);
          whole = nat (n div 100);
          frac = nat (n mod 100)
      in (if x < 0 then ''-'' else [])
         @ digits whole @ ''.'' @ (if frac < 10 then ''0'' else []) @ digits frac)"

definition bsw_execute ::
  "real \<Rightarrow> Setpoints \<Rightarrow> DataStore \<Rightarrow> BSWMonitor \<Rightarrow> (DataStore \<times> BSWMonitor) option"
where
  "bsw_execute now sp ds b =
     (let raw_bsw = ds_read ds ''AI_BSW_PROBE'' in
      do {
        raw \<leftarrow> num raw_bsw;
        if raw < - (1 / 10) \<or> raw > 55 / 10
        then Some (ds_write now ''BSW_PCT'' raw_bsw
                     (ds_write_q now ''AI_BSW_PROBE'' raw_bsw ''BAD'' ds), b)
        else do {
          let rs0 = readings b @ [raw];
          let rs = (if length rs0 > 10 then tl rs0 else rs0);
          let avg_bsw = sum_list rs / real (length rs);
          let ds1 = ds_write now ''BSW_PCT'' (PFloat (py_round avg_bsw 3)) ds;
          let b1 = b\<lparr>readings := rs\<rparr>;
          Some (if avg_bsw \<ge> bsw_divert_pct sp
                then (if \<not> divert_pending b1
                      then (ds1, b1\<lparr>divert_pending := True, divert_timer_start := now\<rparr>)
                      else if now - divert_timer_start b1 \<ge> bsw_divert_delay_sec sp
                      then (ds_write now ''DIVERT_REASON''
                              (PStr (''BS&W '' @ format_2f avg_bsw @ ''%'')) ds1, b1)
                      else (ds1, b1))
                else (ds1, b1\<lparr>divert_pending := False\<rparr>))
        }
      })"

section \<open>Divert valve supervisor and pressure monitor\<close>

record DivertValve =
  last_cmd :: pyval
  cmd_change_time :: real

definition DivertValve_init :: DivertValve where
  "DivertValve_init = \<lparr>last_cmd = PNone, cmd_change_time = 0\<rparr>"

text \<open>Python's \<^verbatim>\<open>==\<close> on tag values: numbers (bools included) compare by value.\<close>

definition py_eq :: "pyval \<Rightarrow> pyval \<Rightarrow> bool" where
  "py_eq a b =
     (case (num a, num b) of
        (Some x, Some y) \<Rightarrow> x = y
      | _ \<Rightarrow> a = b)"

definition divert_execute :: "real \<Rightarrow> DataStore \<Rightarrow> DivertValve \<Rightarrow> DataStore \<times> DivertValve" where
  "divert_execute now ds d =
     (let cmd = ds_read ds ''DO_DIVERT_CMD'';
          at_sales = truthy (ds_read ds ''DI_DIVERT_SALES'');
          at_divert = truthy (ds_read ds ''DI_DIVERT_DIVERT'');
          d1 = (if \<not> py_eq cmd (last_cmd d) then d\<lparr>cmd_change_time := now, last_cmd := cmd\<rparr> else d);
          position0 =
            (if truthy cmd then (if at_divert then ''DIVERT'' else ''TRANSIT_TO_DIVERT'')
             else (if at_sales then ''SALES'' else ''TRANSIT_TO_SALES''));
          position = (if at_sales \<and> at_divert then ''FAULT_BOTH_LIMITS'' else position0)
      in (ds_write now ''DIVERT_VALVE_POS'' (PStr position) ds, d1))"

definition pressure_execute :: "real \<Rightarrow> Setpoints \<Rightarrow> DataStore \<Rightarrow> DataStore" where
  "pressure_execute now sp ds =
     ds_write now ''AO_BP_DIVERT_SP'' (PFloat (backpressure_divert_psi sp))
       (ds_write now ''AO_BP_SALES_SP'' (PFloat (backpressure_sales_psi sp)) ds)"

section \<open>Controller scan\<close>

record PLCController =
  c_io_map :: IOMap
  c_sp :: Setpoints
  c_ds :: DataStore
  c_safety :: SafetyManager
  c_state_machine :: LACTStateMachine
  c_flow :: FlowMeasurement
  c_bsw :: BSWMonitor
  c_sampler :: Sampler
  c_divert :: DivertValve
  c_pump :: PumpControl
  c_proving :: ProvingManager
  scan_count :: int

definition PLCController_init :: "real \<Rightarrow> PLCController" where
  "PLCController_init now =
     \<lparr>c_io_map = IOMap_default, c_sp = Setpoints_default, c_ds = DataStore_init,
      c_safety = SafetyManager_init AlarmConfig_definitions,
      c_state_machine = LACTStateMachine_init now,
      c_flow = FlowMeasurement_init now, c_bsw = BSWMonitor_init, c_sampler = Sampler_init,
      c_divert = DivertValve_init, c_pump = PumpControl_init, c_proving = ProvingManager_init,
      scan_count = 0\<rparr>"

text \<open>Phase 3 of the scan: the requests that the safety manager's flags cause.\<close>

definition safety_actions :: "SafetyManager \<Rightarrow> LACTStateMachine \<Rightarrow> LACTStateMachine" where
  "safety_actions m sm =
     (if shutdown_requested m
      then (if state sm \<notin> {E_STOP, SHUTDOWN, IDLE} then request_transition SHUTDOWN sm else sm)
      else if divert_requested m
      then (if state sm = RUNNING then request_transition DIVERT sm else sm)
      else sm)"

text \<open>
  One scan cycle. The result is \<open>None\<close> when an exception escapes the cycle; otherwise
  the controller after the cycle and the commands issued to the output backend.
\<close>

definition execute_scan ::
  "real \<Rightarrow> IOBackend \<Rightarrow> PLCController \<Rightarrow> (PLCController \<times> io_command list) option"
where
  "execute_scan now backend c =
     do {
       let ds1 = read_inputs now backend (c_io_map c) (c_ds c);
       (ds2, safety1) \<leftarrow> safety_execute now (c_sp c) ds1 (c_safety c);
       let sm1 = safety_actions safety1 (c_state_machine c);
       (ds3, sm2) \<leftarrow> (case sm_execute now (c_sp c) ds2 sm1 of
                        Done d m \<Rightarrow> Some (d, m)
                      | Raised d m \<Rightarrow> None);
       let current_state = state sm2;
       let ds4 = pressure_execute now (c_sp c) ds3;
       ds5 \<leftarrow> temperature_execute now (c_sp c) ds4;
       (ds6, flow1) \<leftarrow> flow_execute now (c_sp c) ds5 (c_flow c);
       (ds7, bsw1) \<leftarrow> bsw_execute now (c_sp c) ds6 (c_bsw c);
       (ds8, sampler1) \<leftarrow>
          (if current_state \<in> {RUNNING, DIVERT}
           then sampler_execute now (c_sp c) current_state ds7 (c_sampler c)
           else Some (ds7, c_sampler c));
       (ds9, proving1) \<leftarrow>
          (if current_state = PROVING
           then proving_execute now (c_sp c) ds8 (c_proving c)
           else Some (ds8, c_proving c));
       let (ds10, divert1) = divert_execute now ds9 (c_divert c);
       let (ds11, pump1) = pump_execute now (c_sp c) ds10 (c_pump c);
       Some (c\<lparr>c_ds := ds11, c_safety := safety1, c_state_machine := sm2, c_flow := flow1,
                c_bsw := bsw1, c_sampler := sampler1, c_divert := divert1, c_pump := pump1,
                c_proving := proving1, scan_count := scan_count c + 1\<rparr>,
             write_outputs ds11 (c_io_map c))
     }"

text \<open>The operator's prove command.\<close>

definition cmd_prove :: "real \<Rightarrow> PLCController \<Rightarrow> PLCController" where
  "cmd_prove now c =
     (if state (c_state_machine c) \<noteq> RUNNING then c
      else c\<lparr>c_proving := start_proving now (c_proving c),
             c_state_machine := request_transition PROVING (c_state_machine c)\<rparr>)"

text \<open>The safe pattern of the commanded outputs.\<close>

definition safe_pattern :: "DataStore \<Rightarrow> bool" where
  "safe_pattern d =
     (ds_read d ''DO_PUMP_START'' = PBool False \<and> ds_read d ''DO_DIVERT_CMD'' = PBool True
      \<and> ds_read d ''DO_SAMPLE_SOL'' = PBool False \<and> ds_read d ''DO_SAMPLE_MIX_PUMP'' = PBool False
      \<and> ds_read d ''DO_PROVER_VLV_CMD'' = PBool False
      \<and> ds_read d ''DO_ALARM_BEACON'' = PBool True \<and> ds_read d ''DO_ALARM_HORN'' = PBool True)"

text \<open>Two tag databases agree except on a set of tags.\<close>

definition same_except :: "string set \<Rightarrow> DataStore \<Rightarrow> DataStore \<Rightarrow> bool" where
  "same_except S d d' = (\<forall>t. t \<notin> S \<longrightarrow> d' t = d t)"

section \<open>Example plant conditions\<close>

text \<open>
  Field inputs of a unit that is pumping to sales: inlet and outlet valves open, pump
  running, divert valve at sales, pressures near 50 psi, BS&W near 0.3 percent, both
  temperatures at 60 degrees, 1000 meter pulses counted; the emergency stop button and the
  sample pot level switch as given.
\<close>

definition plant_backend :: "bool \<Rightarrow> bool \<Rightarrow> IOBackend" where
  "plant_backend estop pot_hi =
     \<lparr>read_digital = (\<lambda>a. Some (PBool (a \<in> {0, 3, 5, 11} \<or> (a = 12 \<and> estop) \<or> (a = 7 \<and> pot_hi)))),
      read_analog = (\<lambda>a. Some (PInt (if a = 3 then 246 else if a = 4 \<or> a = 5 then 1489 else 683))),
      read_pulse_count = (\<lambda>a. Some (PInt 1000))\<rparr>"

text \<open>A controller in the given state of the state machine, entered at time 0, with the
  pump commanded on and the sample solenoid energised in the middle of a grab.\<close>

definition controller_in :: "LACTState \<Rightarrow> PLCController" where
  "controller_in st =
     (PLCController_init 0)
       \<lparr>c_ds := ds_write 99 ''DO_SAMPLE_MIX_PUMP'' (PBool True)
                  (ds_write 99 ''DO_SAMPLE_SOL'' (PBool True)
                    (ds_write 20 ''DO_STATUS_GREEN'' (PBool True)
                      (ds_write 5 ''DO_PUMP_START'' (PBool True) DataStore_init))),
        c_state_machine := (LACTStateMachine_init 0)\<lparr>state := st\<rparr>,
        c_sampler := Sampler_init\<lparr>solenoid_active := True, solenoid_on_time := 99,
                                   last_grab_time := 99, mix_running := True\<rparr>\<rparr>"

text \<open>Views of the result of a scan: the value of a tag and the state of the state machine
  after it.\<close>

definition tag_after_scan :: "(PLCController \<times> io_command list) option \<Rightarrow> string \<Rightarrow> pyval option" where
  "tag_after_scan r t = map_option (\<lambda>(c, cmds). ds_read (c_ds c) t) r"

definition state_after_scan :: "(PLCController \<times> io_command list) option \<Rightarrow> LACTState option" where
  "state_after_scan r = map_option (\<lambda>(c, cmds). state (c_state_machine c)) r"

text \<open>
  An execution that remains in one state: the machine is in state \<open>s\<close> before the given
  events and after each of them.
\<close>

fun stays_in :: "LACTState \<Rightarrow> LACTStateMachine \<Rightarrow> sm_event list \<Rightarrow> bool" where
  "stays_in s sm [] = (state sm = s)"
| "stays_in s sm (e # es) = (state sm = s \<and> stays_in s (sm_event_step sm e) es)"

(*DEFS_END*)

section \<open>Alarm state properties\<close>

lemma activate_ok: "ack_implies_active s \<Longrightarrow> ack_implies_active (activate v now s)"
  by (simp add: ack_implies_active_def activate_def)

lemma deactivate_ok: "ack_implies_active s \<Longrightarrow> ack_implies_active (deactivate s)"
  by (simp add: ack_implies_active_def deactivate_def)

lemma acknowledge_ok: "al_active s \<Longrightarrow> ack_implies_active (acknowledge s)"
  by (simp add: ack_implies_active_def acknowledge_def Let_def)

lemma modify_alarm_ok:
  assumes "list_all (\<lambda>(k, s). ack_implies_active s) sts"
    and "\<And>s. map_of sts t = Some s \<Longrightarrow> ack_implies_active s \<Longrightarrow> ack_implies_active (f s)"
  shows "list_all (\<lambda>(k, s). ack_implies_active s) (modify_alarm t f sts)"
  using assms
proof (induction sts)
  case Nil
  then show ?case by simp
next
  case (Cons p sts)
  obtain k s where p: "p = (k, s)" by (cases p)
  show ?case
  proof (cases "k = t")
    case True
    with Cons.prems p show ?thesis by simp
  next
    case False
    with Cons p show ?thesis by simp
  qed
qed

lemma sm_activate_ok: "alarms_ok m \<Longrightarrow> alarms_ok (sm_activate t v now m)"
  by (auto simp: alarms_ok_def sm_activate_def Let_def activate_ok
      intro!: modify_alarm_ok split: option.splits)

lemma sm_deactivate_ok: "alarms_ok m \<Longrightarrow> alarms_ok (sm_deactivate t m)"
  by (auto simp: alarms_ok_def sm_deactivate_def deactivate_ok
      intro!: modify_alarm_ok split: option.splits)

lemma acknowledge_all_ok: "alarms_ok m \<Longrightarrow> alarms_ok (acknowledge_all m)"
  by (fastforce simp: alarms_ok_def acknowledge_all_def list_all_iff acknowledge_ok
      split: if_splits)

lemma SafetyManager_init_ok: "alarms_ok (SafetyManager_init defs)"
  by (auto simp: alarms_ok_def SafetyManager_init_def list_all_iff
      ack_implies_active_def AlarmState_init_def)

lemma acknowledge_alarm_ok: "alarms_ok m \<Longrightarrow> alarms_ok (fst (acknowledge_alarm t m))"
proof (cases "map_of (alarm_states m) t")
  case None
  then show "alarms_ok m \<Longrightarrow> ?thesis" by (simp add: acknowledge_alarm_def)
next
  case (Some st)
  assume ok: "alarms_ok m"
  show ?thesis
  proof (cases "al_active st")
    case False
    with Some ok show ?thesis by (simp add: acknowledge_alarm_def)
  next
    case True
    have "list_all (\<lambda>(k, s). ack_implies_active s) (modify_alarm t acknowledge (alarm_states m))"
      using ok Some True unfolding alarms_ok_def
      by (intro modify_alarm_ok) (simp_all add: acknowledge_ok)
    with Some True show ?thesis by (simp add: acknowledge_alarm_def alarms_ok_def)
  qed
qed

lemma apply_safety_op_ok: "alarms_ok m \<Longrightarrow> alarms_ok (apply_safety_op m opn)"
  by (cases opn) (simp_all add: sm_activate_ok sm_deactivate_ok acknowledge_alarm_ok
      acknowledge_all_ok)

lemma foldl_safety_ops_ok: "alarms_ok m \<Longrightarrow> alarms_ok (foldl apply_safety_op m ops)"
  by (induction ops arbitrary: m) (simp_all add: apply_safety_op_ok)

text \<open>
  Claim C8 as stated fails: a freshly constructed alarm state is inactive and not
  acknowledged, and so is the state after an alarm was raised, acknowledged and cleared.
\<close>

theorem alarm_inactive_unacknowledged_counterexample:
  "\<not> (\<not> al_active (foldl apply_alarm_op
            (AlarmState_init (alarm_def ''ALM_ESTOP'' CRITICAL ACT_EMERGENCY_STOP))
            [Activate (PFloat 0) 100, Acknowledge, Deactivate])
       \<longrightarrow> al_acknowledged (foldl apply_alarm_op
            (AlarmState_init (alarm_def ''ALM_ESTOP'' CRITICAL ACT_EMERGENCY_STOP))
            [Activate (PFloat 0) 100, Acknowledge, Deactivate]))"
  by (simp add: AlarmState_init_def alarm_def_def activate_def acknowledge_def deactivate_def)

text \<open>
  Claim C8, amended: in every alarm table reachable from the initial one through the
  safety manager's operations (activate, deactivate, acknowledge one alarm, acknowledge
  all, where acknowledging touches active alarms only), a latching alarm that is not
  active is not acknowledged; the initial state of an alarm is inactive and not
  acknowledged.
\<close>

theorem latching_alarm_inactive_unacknowledged:
  "list_all (\<lambda>(k, s). latching (al_definition s) \<longrightarrow> \<not> al_active s \<longrightarrow> \<not> al_acknowledged s)
     (alarm_states (foldl apply_safety_op (SafetyManager_init defs) ops))
   \<and> \<not> al_active (AlarmState_init d) \<and> \<not> al_acknowledged (AlarmState_init d)"
proof -
  have "alarms_ok (foldl apply_safety_op (SafetyManager_init defs) ops)"
    by (rule foldl_safety_ops_ok) (rule SafetyManager_init_ok)
  then show ?thesis
    by (auto simp: alarms_ok_def list_all_iff ack_implies_active_def AlarmState_init_def)
qed

theorem latching_alarm_inactive_unacknowledged_witness:
  "map_of (alarm_states (foldl apply_safety_op (SafetyManager_init AlarmConfig_definitions)
       [SM_activate ''ALM_ESTOP'' (PFloat 0) 100, SM_acknowledge_alarm ''ALM_ESTOP'',
        SM_deactivate ''ALM_ESTOP''])) ''ALM_ESTOP''
     = Some (AlarmState_init (alarm_def ''ALM_ESTOP'' CRITICAL ACT_EMERGENCY_STOP)\<lparr>al_timestamp := 100\<rparr>)
   \<and> latching (alarm_def ''ALM_ESTOP'' CRITICAL ACT_EMERGENCY_STOP)
   \<and> list_all (\<lambda>(k, s). latching (al_definition s) \<longrightarrow> \<not> al_active s \<longrightarrow> \<not> al_acknowledged s)
     (alarm_states (foldl apply_safety_op (SafetyManager_init AlarmConfig_definitions)
       [SM_activate ''ALM_ESTOP'' (PFloat 0) 100, SM_acknowledge_alarm ''ALM_ESTOP'',
        SM_deactivate ''ALM_ESTOP'']))"
  using latching_alarm_inactive_unacknowledged [of AlarmConfig_definitions
      "[SM_activate ''ALM_ESTOP'' (PFloat 0) 100, SM_acknowledge_alarm ''ALM_ESTOP'',
        SM_deactivate ''ALM_ESTOP'']"]
  by (simp add: SafetyManager_init_def AlarmConfig_definitions_def alarm_def_def
      AlarmState_init_def sm_activate_def sm_deactivate_def acknowledge_alarm_def
      activate_def acknowledge_def deactivate_def Let_def)

section \<open>Pump starts per hour\<close>

lemma within_rolling_hour_append:
  "within_rolling_hour (xs @ ys) \<Longrightarrow>
     (\<forall>x \<in> set xs. \<forall>y \<in> set ys. x > y - 3600) \<and> within_rolling_hour xs \<and> within_rolling_hour ys"
  by (induction xs) (auto simp: list_all_iff)

lemma within_rolling_hour_filter:
  assumes "within_rolling_hour (pre @ t # ts)"
  shows "filter (\<lambda>x. x > t - 3600) pre = pre"
proof -
  have "\<forall>x \<in> set pre. x > t - 3600"
    using within_rolling_hour_append [OF assms] by simp
  then show ?thesis by (simp only: filter_True)
qed

lemma record_starts_results:
  "length (start_times p) + length ts \<le> 20 \<Longrightarrow> within_rolling_hour (start_times p @ ts) \<Longrightarrow>
   snd (record_starts sp ts p)
     = map (\<lambda>c. int c < pump_max_starts_per_hour sp)
         [Suc (length (start_times p)) ..< Suc (length (start_times p) + length ts)]
   \<and> start_times (fst (record_starts sp ts p)) = start_times p @ ts
   \<and> locked_out (fst (record_starts sp ts p))
     = (locked_out p \<or> (ts \<noteq> [] \<and> int (length (start_times p) + length ts) \<ge> pump_max_starts_per_hour sp))"
proof (induction ts arbitrary: p)
  case Nil
  then show ?case by simp
next
  case (Cons t ts)
  let ?pre = "start_times p"
  obtain p1 r where step: "record_start t sp p = (p1, r)" by (cases "record_start t sp p")
  have len: "length ?pre < 20" using Cons.prems(1) by simp
  have app: "deque_append 20 ?pre t = ?pre @ [t]" using len by (simp add: deque_append_def)
  have flt: "filter (\<lambda>x. x > t - 3600) ?pre = ?pre"
    using Cons.prems(2) by (rule within_rolling_hour_filter)
  have p1: "start_times p1 = ?pre @ [t]"
    and r: "r = (int (Suc (length ?pre)) < pump_max_starts_per_hour sp)"
    and lo: "locked_out p1 = (locked_out p \<or> int (Suc (length ?pre)) \<ge> pump_max_starts_per_hour sp)"
    using step by (auto simp: record_start_def Let_def app flt split: if_splits)
  have ih: "snd (record_starts sp ts p1)
     = map (\<lambda>c. int c < pump_max_starts_per_hour sp)
         [Suc (length (start_times p1)) ..< Suc (length (start_times p1) + length ts)]
   \<and> start_times (fst (record_starts sp ts p1)) = start_times p1 @ ts
   \<and> locked_out (fst (record_starts sp ts p1))
     = (locked_out p1 \<or> (ts \<noteq> [] \<and> int (length (start_times p1) + length ts) \<ge> pump_max_starts_per_hour sp))"
    using Cons.prems by (intro Cons.IH) (simp_all add: p1)
  have upt: "[Suc (length ?pre) ..< Suc (length ?pre + length (t # ts))]
      = Suc (length ?pre) # [Suc (Suc (length ?pre)) ..< Suc (Suc (length ?pre) + length ts)]"
    by (subst upt_conv_Cons) simp_all
  have rs: "record_starts sp (t # ts) p = (fst (record_starts sp ts p1), r # snd (record_starts sp ts p1))"
    using step by (simp add: case_prod_beta)
  have "locked_out (fst (record_starts sp ts p1))
     = (locked_out p \<or> int (length ?pre + length (t # ts)) \<ge> pump_max_starts_per_hour sp)"
    using ih lo p1 by (cases ts) auto
  then show ?case
    unfolding upt rs using ih r by (simp add: p1)
qed

text \<open>
  Claim C7 as stated fails when the limit exceeds the 20 timestamps the start buffer
  keeps: with a limit of 21, the 21st start within the hour is still accepted and the
  lockout is not latched.
\<close>

theorem record_start_limit_21_counterexample:
  "snd (record_starts (Setpoints_default\<lparr>pump_max_starts_per_hour := 21\<rparr>)
     [1, 2, 3, 4, 5, 6, 7, 8, 9, 10, 11, 12, 13, 14, 15, 16, 17, 18, 19, 20, 21]
     PumpControl_init) ! 20
   \<and> \<not> locked_out (fst (record_starts (Setpoints_default\<lparr>pump_max_starts_per_hour := 21\<rparr>)
     [1, 2, 3, 4, 5, 6, 7, 8, 9, 10, 11, 12, 13, 14, 15, 16, 17, 18, 19, 20, 21]
     PumpControl_init))"
  by (simp add: record_start_def PumpControl_init_def deque_append_def Let_def
      Setpoints_default_def)

text \<open>
  Claim C7, amended: for a limit \<open>N = pump_max_starts_per_hour\<close> with \<open>1 \<le> N \<le> 20\<close> and
  \<open>N\<close> calls of \<^verbatim>\<open>record_start\<close> on a fresh pump controller within one rolling hour,
  the first \<open>N - 1\<close> calls return True, the \<open>N\<close>th call returns False, and the lockout
  flag is latched by the \<open>N\<close>th call and not before.
\<close>

theorem record_start_nth_rejected:
  assumes "1 \<le> pump_max_starts_per_hour sp" and "pump_max_starts_per_hour sp \<le> 20"
    and "int (length ts) = pump_max_starts_per_hour sp"
    and "within_rolling_hour ts"
  shows "snd (record_starts sp ts PumpControl_init) = replicate (length ts - 1) True @ [False]
       \<and> locked_out (fst (record_starts sp ts PumpControl_init))
       \<and> \<not> locked_out (fst (record_starts sp (butlast ts) PumpControl_init))"
proof -
  let ?N = "pump_max_starts_per_hour sp"
  have n: "length ts \<le> 20" "length ts \<ge> 1" using assms by linarith+
  have a: "snd (record_starts sp ts PumpControl_init) = map (\<lambda>c. int c < ?N) [Suc 0 ..< Suc (length ts)]"
    and b: "locked_out (fst (record_starts sp ts PumpControl_init))"
    using record_starts_results [of PumpControl_init ts sp] assms n
    by (auto simp: PumpControl_init_def)
  have "ts = butlast ts @ [last ts]" using n by (cases ts) auto
  then have wb: "within_rolling_hour (butlast ts)"
    using assms(4) within_rolling_hour_append [of "butlast ts" "[last ts]"] by simp
  have c: "\<not> locked_out (fst (record_starts sp (butlast ts) PumpControl_init))"
    using record_starts_results [of PumpControl_init "butlast ts" sp] assms n wb
    by (auto simp: PumpControl_init_def)
  have "[Suc 0 ..< Suc (length ts)] = [Suc 0 ..< length ts] @ [length ts]"
    using n by simp
  moreover have "map (\<lambda>c. int c < ?N) [Suc 0 ..< length ts] = replicate (length ts - 1) True"
  proof -
    have "map (\<lambda>c. int c < ?N) [Suc 0 ..< length ts] = map (\<lambda>c. True) [Suc 0 ..< length ts]"
      using assms(3) by (intro map_cong) auto
    then show ?thesis by (simp add: map_replicate_const)
  qed
  ultimately have "map (\<lambda>c. int c < ?N) [Suc 0 ..< Suc (length ts)] = replicate (length ts - 1) True @ [False]"
    using assms(3) by simp
  with a b c show ?thesis by simp
qed

theorem record_start_nth_rejected_witness:
  "1 \<le> pump_max_starts_per_hour Setpoints_default
   \<and> pump_max_starts_per_hour Setpoints_default \<le> 20
   \<and> int (length [10, 700, 1400, 2100, 2800, 3500 :: real]) = pump_max_starts_per_hour Setpoints_default
   \<and> within_rolling_hour [10, 700, 1400, 2100, 2800, 3500]
   \<and> snd (record_starts Setpoints_default [10, 700, 1400, 2100, 2800, 3500] PumpControl_init)
       = [True, True, True, True, True, False]
   \<and> locked_out (fst (record_starts Setpoints_default [10, 700, 1400, 2100, 2800, 3500] PumpControl_init))
   \<and> \<not> locked_out (fst (record_starts Setpoints_default [10, 700, 1400, 2100, 2800] PumpControl_init))"
proof -
  have h1: "1 \<le> pump_max_starts_per_hour Setpoints_default"
    and h2: "pump_max_starts_per_hour Setpoints_default \<le> 20"
    and h3: "int (length [10, 700, 1400, 2100, 2800, 3500 :: real]) = pump_max_starts_per_hour Setpoints_default"
    by (simp_all add: Setpoints_default_def)
  have h4: "within_rolling_hour [10, 700, 1400, 2100, 2800, 3500]" by simp
  show ?thesis
    using h1 h2 h3 h4 record_start_nth_rejected [OF h1 h2 h3 h4]
    by (simp add: numeral_eq_Suc)
qed

section \<open>Rounding and tag database lemmas\<close>

lemma round_half_even_bounds: "\<lfloor>x\<rfloor> \<le> round_half_even x \<and> round_half_even x \<le> \<lfloor>x\<rfloor> + 1"
  by (simp add: round_half_even_def Let_def)

lemma round_half_even_mono:
  assumes "x \<le> y"
  shows "round_half_even x \<le> round_half_even y"
proof (cases "\<lfloor>x\<rfloor> < \<lfloor>y\<rfloor>")
  case True
  have "round_half_even x \<le> \<lfloor>x\<rfloor> + 1" using round_half_even_bounds by blast
  also have "\<dots> \<le> \<lfloor>y\<rfloor>" using True by simp
  also have "\<dots> \<le> round_half_even y" using round_half_even_bounds by blast
  finally show ?thesis .
next
  case False
  have "\<lfloor>x\<rfloor> \<le> \<lfloor>y\<rfloor>" using assms by (rule floor_mono)
  with False have eq: "\<lfloor>x\<rfloor> = \<lfloor>y\<rfloor>" by simp
  then have "x - of_int \<lfloor>x\<rfloor> \<le> y - of_int \<lfloor>y\<rfloor>" using assms by simp
  then show ?thesis
    unfolding round_half_even_def Let_def eq by auto
qed

lemma py_round_mono: "x \<le> y \<Longrightarrow> py_round x n \<le> py_round y n"
proof -
  assume "x \<le> y"
  then have "x * 10 ^ n \<le> y * 10 ^ n" by simp
  then have "round_half_even (x * 10 ^ n) \<le> round_half_even (y * 10 ^ n)"
    by (rule round_half_even_mono)
  then show ?thesis
    unfolding py_round_def by (simp add: divide_right_mono)
qed

lemma ds_read_write_same [simp]: "ds_read (ds_write now t v ds) t = v"
  by (simp add: ds_read_def ds_write_def ds_write_q_def)

lemma ds_read_write_other [simp]: "t' \<noteq> t \<Longrightarrow> ds_read (ds_write now t v ds) t' = ds_read ds t'"
  by (simp add: ds_read_def ds_write_def ds_write_q_def)

section \<open>Temperature correction factor\<close>

lemma clamp_range:
  "(9 / 10 :: real) \<le> max (9 / 10) (min (11 / 10) e) \<and> max (9 / 10) (min (11 / 10) e) \<le> 11 / 10"
  by (simp add: max_def min_def)

lemma compute_ctl_range: "9 / 10 \<le> compute_ctl sp T \<and> compute_ctl sp T \<le> 11 / 10"
proof (cases "\<bar>T - temp_base_deg_f sp\<bar> < 1 / 100")
  case True
  then show ?thesis by (simp add: compute_ctl_def Let_def)
next
  case False
  then show ?thesis
    unfolding compute_ctl_def Let_def using clamp_range by (simp only: if_False)
qed

text \<open>
  Claim C9: for every input temperature the CTL computed by \<^verbatim>\<open>_compute_ctl\<close> lies in
  \<open>[0.9, 1.1]\<close>; within 0.01 degrees of the base temperature (in particular at 60 with the
  default base of 60) it is exactly 1; and \<^verbatim>\<open>execute\<close> publishes \<^verbatim>\<open>CTL_FACTOR\<close> as that
  result rounded to 6 decimal places.
\<close>

theorem ctl_factor_bounded:
  "9 / 10 \<le> compute_ctl sp T \<and> compute_ctl sp T \<le> 11 / 10
   \<and> (\<bar>T - temp_base_deg_f sp\<bar> < 1 / 100 \<longrightarrow> compute_ctl sp T = 1)
   \<and> compute_ctl Setpoints_default 60 = 1
   \<and> (num (ds_read ds ''AI_METER_TEMP'') = Some T \<longrightarrow>
        (\<exists>ds'. temperature_execute now sp ds = Some ds'
           \<and> ds_read ds' ''CTL_FACTOR'' = PFloat (py_round (compute_ctl sp T) 6)))"
proof -
  have a: "\<bar>T - temp_base_deg_f sp\<bar> < 1 / 100 \<longrightarrow> compute_ctl sp T = 1"
    by (simp add: compute_ctl_def Let_def)
  have b: "compute_ctl Setpoints_default 60 = 1"
    by (simp add: compute_ctl_def Setpoints_default_def)
  have c: "num (ds_read ds ''AI_METER_TEMP'') = Some T \<longrightarrow>
        (\<exists>ds'. temperature_execute now sp ds = Some ds'
           \<and> ds_read ds' ''CTL_FACTOR'' = PFloat (py_round (compute_ctl sp T) 6))"
  proof
    assume n: "num (ds_read ds ''AI_METER_TEMP'') = Some T"
    then obtain r where r: "py_round_val (ds_read ds ''AI_METER_TEMP'') 1 = Some r"
      by (cases "ds_read ds ''AI_METER_TEMP''") simp_all
    show "\<exists>ds'. temperature_execute now sp ds = Some ds'
           \<and> ds_read ds' ''CTL_FACTOR'' = PFloat (py_round (compute_ctl sp T) 6)"
      using n r by (simp add: temperature_execute_def)
  qed
  from compute_ctl_range a b c show ?thesis by blast
qed

theorem ctl_factor_bounded_witness:
  "\<bar>(60::real) - temp_base_deg_f Setpoints_default\<bar> < 1 / 100
   \<and> num (ds_read DataStore_init ''AI_METER_TEMP'') = Some 60
   \<and> compute_ctl Setpoints_default 60 = 1
   \<and> read_after (map_option (\<lambda>ds. (ds, ())) (temperature_execute 5 Setpoints_default DataStore_init)) ''CTL_FACTOR''
       = Some (PFloat 1)"
proof -
  have h1: "\<bar>(60::real) - temp_base_deg_f Setpoints_default\<bar> < 1 / 100"
    by (simp add: Setpoints_default_def)
  have h2: "num (ds_read DataStore_init ''AI_METER_TEMP'') = Some 60"
    by (simp add: ds_read_def DataStore_init_def tag0_def)
  have r: "py_round 1 6 = 1" by (simp add: py_round_def round_half_even_def)
  show ?thesis
    using h1 h2 r ctl_factor_bounded [of Setpoints_default 60 DataStore_init 5]
    by (auto simp: read_after_def)
qed

section \<open>Flow totals\<close>

lemma delta_bbl_nonneg: "0 \<le> dp \<Longrightarrow> 0 \<le> delta_bbl sp dp"
  by (simp add: delta_bbl_def Let_def)

lemma delta_pulses_nonneg: "prev \<le> cur \<Longrightarrow> 0 \<le> delta_pulses cur prev"
  by (simp add: delta_pulses_def)

lemma flow_execute_Some:
  assumes "flow_execute now sp ds f = Some (ds', f')"
  shows "\<exists>cur prev mf ctl.
      num (ds_read ds ''PI_METER_PULSE'') = Some cur
    \<and> num (last_pulse_count f) = Some prev
    \<and> num (py_or (ds_read ds ''METER_FACTOR'') (PFloat 1)) = Some mf
    \<and> num (py_or (ds_read ds ''CTL_FACTOR'') (PFloat 1)) = Some ctl
    \<and> gross_total_bbl f' = gross_total_bbl f + delta_bbl sp (delta_pulses cur prev)
    \<and> last_pulse_count f' = ds_read ds ''PI_METER_PULSE''
    \<and> ds_read ds' ''FLOW_TOTAL_BBL'' = PFloat (py_round (gross_total_bbl f') 4)
    \<and> ds_read ds' ''FLOW_NET_BBL'' = PFloat (py_round (gross_total_bbl f' * mf * ctl) 4)
    \<and> ds_read ds' ''BATCH_GROSS_BBL'' = PFloat (py_round (gross_total_bbl f' * mf) 4)
    \<and> ds_read ds' ''BATCH_NET_BBL'' = PFloat (py_round (gross_total_bbl f' * mf * ctl) 4)"
  using assms
  by (auto simp: flow_execute_def Let_def split: Option.bind_splits)

lemma flow_execute_total:
  assumes "num (ds_read ds ''PI_METER_PULSE'') = Some cur"
    and "num (last_pulse_count f) = Some prev"
    and "num (py_or (ds_read ds ''METER_FACTOR'') (PFloat 1)) = Some mf"
    and "num (py_or (ds_read ds ''CTL_FACTOR'') (PFloat 1)) = Some ctl"
  shows "\<exists>ds' f'. flow_execute now sp ds f = Some (ds', f')"
  using assms by (simp add: flow_execute_def Let_def)

text \<open>
  Claim C6: for two consecutive cycles of \<^verbatim>\<open>FlowMeasurement.execute\<close> between which the
  pulse counter \<^verbatim>\<open>PI_METER_PULSE\<close> does not decrease, the value written to
  \<^verbatim>\<open>FLOW_TOTAL_BBL\<close> in the later cycle is at least the value written in the earlier one;
  when the counter decreases, the pulse delta used is the current counter value; and a
  K-factor of 0 gives a zero volume increment, the cycle completing without error.
\<close>

theorem flow_total_nondecreasing:
  "(flow_execute now1 sp1 ds1 f0 = Some (ds1', f1)
      \<and> flow_execute now2 sp2 ds2 f1 = Some (ds2', f2)
      \<and> num (ds_read ds1 ''PI_METER_PULSE'') = Some p1
      \<and> num (ds_read ds2 ''PI_METER_PULSE'') = Some p2 \<longrightarrow>
        (p1 \<le> p2 \<longrightarrow>
          (\<exists>t1 t2. ds_read ds1' ''FLOW_TOTAL_BBL'' = PFloat t1
                 \<and> ds_read ds2' ''FLOW_TOTAL_BBL'' = PFloat t2 \<and> t1 \<le> t2))
      \<and> (p2 < p1 \<longrightarrow>
            delta_pulses p2 p1 = p2
          \<and> gross_total_bbl f2 = gross_total_bbl f1 + delta_bbl sp2 p2))
   \<and> (meter_k_factor sp = 0
      \<and> num (ds_read ds ''PI_METER_PULSE'') \<noteq> None
      \<and> num (last_pulse_count f) \<noteq> None
      \<and> num (py_or (ds_read ds ''METER_FACTOR'') (PFloat 1)) \<noteq> None
      \<and> num (py_or (ds_read ds ''CTL_FACTOR'') (PFloat 1)) \<noteq> None \<longrightarrow>
        delta_bbl sp dp = 0
      \<and> (\<exists>ds' f'. flow_execute now sp ds f = Some (ds', f')
             \<and> gross_total_bbl f' = gross_total_bbl f))"
proof -
  have A: "(p1 \<le> p2 \<longrightarrow>
          (\<exists>t1 t2. ds_read ds1' ''FLOW_TOTAL_BBL'' = PFloat t1
                 \<and> ds_read ds2' ''FLOW_TOTAL_BBL'' = PFloat t2 \<and> t1 \<le> t2))
      \<and> (p2 < p1 \<longrightarrow>
            delta_pulses p2 p1 = p2
          \<and> gross_total_bbl f2 = gross_total_bbl f1 + delta_bbl sp2 p2)"
    if e1: "flow_execute now1 sp1 ds1 f0 = Some (ds1', f1)"
      and e2: "flow_execute now2 sp2 ds2 f1 = Some (ds2', f2)"
      and p1: "num (ds_read ds1 ''PI_METER_PULSE'') = Some p1"
      and p2: "num (ds_read ds2 ''PI_METER_PULSE'') = Some p2"
  proof -
    from flow_execute_Some [OF e1]
    have l1: "last_pulse_count f1 = ds_read ds1 ''PI_METER_PULSE''"
      and t1: "ds_read ds1' ''FLOW_TOTAL_BBL'' = PFloat (py_round (gross_total_bbl f1) 4)"
      by auto
    from flow_execute_Some [OF e2] p2 l1 p1
    have g2: "gross_total_bbl f2 = gross_total_bbl f1 + delta_bbl sp2 (delta_pulses p2 p1)"
      and t2: "ds_read ds2' ''FLOW_TOTAL_BBL'' = PFloat (py_round (gross_total_bbl f2) 4)"
      by auto
    have mono: "py_round (gross_total_bbl f1) 4 \<le> py_round (gross_total_bbl f2) 4" if "p1 \<le> p2"
      using that g2 delta_bbl_nonneg [OF delta_pulses_nonneg, of p1 p2 sp2]
      by (intro py_round_mono) simp
    have reset: "delta_pulses p2 p1 = p2" if "p2 < p1"
      using that by (simp add: delta_pulses_def)
    show ?thesis using t1 t2 mono reset g2 by auto
  qed
  have B: "delta_bbl sp dp = 0
      \<and> (\<exists>ds' f'. flow_execute now sp ds f = Some (ds', f')
             \<and> gross_total_bbl f' = gross_total_bbl f)"
    if k: "meter_k_factor sp = 0"
      and n: "num (ds_read ds ''PI_METER_PULSE'') \<noteq> None" "num (last_pulse_count f) \<noteq> None"
        "num (py_or (ds_read ds ''METER_FACTOR'') (PFloat 1)) \<noteq> None"
        "num (py_or (ds_read ds ''CTL_FACTOR'') (PFloat 1)) \<noteq> None"
  proof -
    have z: "\<And>x. delta_bbl sp x = 0" using k by (simp add: delta_bbl_def)
    from n obtain a b c d where
      "num (ds_read ds ''PI_METER_PULSE'') = Some a" "num (last_pulse_count f) = Some b"
      "num (py_or (ds_read ds ''METER_FACTOR'') (PFloat 1)) = Some c"
      "num (py_or (ds_read ds ''CTL_FACTOR'') (PFloat 1)) = Some d"
      by blast
    then obtain ds' f' where e: "flow_execute now sp ds f = Some (ds', f')"
      using flow_execute_total by blast
    from flow_execute_Some [OF e] z have "gross_total_bbl f' = gross_total_bbl f" by auto
    with e z show ?thesis by blast
  qed
  from A B show ?thesis by blast
qed

lemma DataStore_init_factors:
  "ds_read DataStore_init ''METER_FACTOR'' = PFloat 1"
  "ds_read DataStore_init ''CTL_FACTOR'' = PFloat 1"
  "ds_read DataStore_init ''AI_METER_TEMP'' = PFloat 60"
  by (simp_all add: ds_read_def DataStore_init_def tag0_def)

lemma flow_execute_eval:
  assumes "num (ds_read ds ''PI_METER_PULSE'') = Some cur"
    and "num (last_pulse_count f) = Some prev"
    and "num (py_or (ds_read ds ''METER_FACTOR'') (PFloat 1)) = Some mf"
    and "num (py_or (ds_read ds ''CTL_FACTOR'') (PFloat 1)) = Some ctl"
  shows "\<exists>ds' f'. flow_execute now sp ds f = Some (ds', f')
     \<and> gross_total_bbl f' = gross_total_bbl f + delta_bbl sp (delta_pulses cur prev)
     \<and> last_pulse_count f' = ds_read ds ''PI_METER_PULSE''
     \<and> ds_read ds' ''FLOW_TOTAL_BBL'' = PFloat (py_round (gross_total_bbl f') 4)
     \<and> ds_read ds' ''BATCH_GROSS_BBL'' = PFloat (py_round (gross_total_bbl f' * mf) 4)"
  using assms by (simp add: flow_execute_def Let_def)

theorem flow_total_nondecreasing_witness:
  "read_after (flow_execute 1 Setpoints_default
       (ds_write 0 ''PI_METER_PULSE'' (PInt 100) DataStore_init) (FlowMeasurement_init 0))
       ''FLOW_TOTAL_BBL'' = Some (PFloat 1)
   \<and> read_after (flow_execute 2 Setpoints_default
       (ds_write 0 ''PI_METER_PULSE'' (PInt 250) DataStore_init)
       (the (state_after (flow_execute 1 Setpoints_default
         (ds_write 0 ''PI_METER_PULSE'' (PInt 100) DataStore_init) (FlowMeasurement_init 0)))))
       ''FLOW_TOTAL_BBL'' = Some (PFloat (5 / 2))
   \<and> map_option gross_total_bbl (state_after (flow_execute 2 Setpoints_default
       (ds_write 0 ''PI_METER_PULSE'' (PInt 30) DataStore_init)
       (the (state_after (flow_execute 1 Setpoints_default
         (ds_write 0 ''PI_METER_PULSE'' (PInt 100) DataStore_init) (FlowMeasurement_init 0))))))
       = Some (13 / 10)
   \<and> map_option gross_total_bbl (state_after (flow_execute 2
       (Setpoints_default\<lparr>meter_k_factor := 0\<rparr>)
       (ds_write 0 ''PI_METER_PULSE'' (PInt 250) DataStore_init)
       (the (state_after (flow_execute 1 Setpoints_default
         (ds_write 0 ''PI_METER_PULSE'' (PInt 100) DataStore_init) (FlowMeasurement_init 0))))))
       = Some 1"
proof -
  let ?d = "\<lambda>n. ds_write 0 ''PI_METER_PULSE'' (PInt n) DataStore_init"
  let ?sp0 = "Setpoints_default\<lparr>meter_k_factor := 0\<rparr>"
  have rd: "\<And>n. num (ds_read (?d n) ''PI_METER_PULSE'') = Some (of_int n)"
    "\<And>n. num (py_or (ds_read (?d n) ''METER_FACTOR'') (PFloat 1)) = Some 1"
    "\<And>n. num (py_or (ds_read (?d n) ''CTL_FACTOR'') (PFloat 1)) = Some 1"
    by (simp_all add: DataStore_init_factors py_or_def)
  have k100: "meter_k_factor Setpoints_default = 100" "meter_k_factor ?sp0 = 0"
    by (simp_all add: Setpoints_default_def)
  have f0: "num (last_pulse_count (FlowMeasurement_init 0)) = Some 0"
    "gross_total_bbl (FlowMeasurement_init 0) = 0"
    by (simp_all add: FlowMeasurement_init_def)
  obtain ds1 f1 where e1: "flow_execute 1 Setpoints_default (?d 100) (FlowMeasurement_init 0) = Some (ds1, f1)"
    and g1: "gross_total_bbl f1 = 1" and l1: "last_pulse_count f1 = PInt 100"
    and t1: "ds_read ds1 ''FLOW_TOTAL_BBL'' = PFloat (py_round (gross_total_bbl f1) 4)"
    using flow_execute_eval [OF rd(1) [of 100] f0(1) rd(2) [of 100] rd(3) [of 100], where now = 1 and sp = Setpoints_default]
    by (auto simp: f0 delta_bbl_def delta_pulses_def k100 ds_read_def ds_write_def ds_write_q_def)
  have n1: "num (last_pulse_count f1) = Some 100" by (simp add: l1)
  obtain ds2 f2 where e2: "flow_execute 2 Setpoints_default (?d 250) f1 = Some (ds2, f2)"
    and g2: "gross_total_bbl f2 = 5 / 2"
    and t2: "ds_read ds2 ''FLOW_TOTAL_BBL'' = PFloat (py_round (gross_total_bbl f2) 4)"
    using flow_execute_eval [OF rd(1) [of 250] n1 rd(2) [of 250] rd(3) [of 250], where now = 2 and sp = Setpoints_default]
    by (auto simp: g1 delta_bbl_def delta_pulses_def k100)
  obtain ds3 f3 where e3: "flow_execute 2 Setpoints_default (?d 30) f1 = Some (ds3, f3)"
    using flow_execute_eval [OF rd(1) [of 30] n1 rd(2) [of 30] rd(3) [of 30], where now = 2 and sp = Setpoints_default]
    by auto
  have rnd: "py_round 1 4 = 1" "py_round (5 / 2) 4 = 5 / 2"
    by (simp_all add: py_round_def round_half_even_def)
  have db: "delta_bbl Setpoints_default 30 = 3 / 10"
    by (simp add: delta_bbl_def k100)
  have hyps: "meter_k_factor ?sp0 = 0
      \<and> num (ds_read (?d 250) ''PI_METER_PULSE'') \<noteq> None
      \<and> num (last_pulse_count f1) \<noteq> None
      \<and> num (py_or (ds_read (?d 250) ''METER_FACTOR'') (PFloat 1)) \<noteq> None
      \<and> num (py_or (ds_read (?d 250) ''CTL_FACTOR'') (PFloat 1)) \<noteq> None"
    by (simp add: n1 k100 DataStore_init_factors py_or_def)
  note A = flow_total_nondecreasing [of 1 Setpoints_default "?d 100" "FlowMeasurement_init 0"
      ds1 f1 2 Setpoints_default "?d 250" ds2 f2 100 250 ?sp0 "?d 250" f1 0 2]
  note B = flow_total_nondecreasing [of 1 Setpoints_default "?d 100" "FlowMeasurement_init 0"
      ds1 f1 2 Setpoints_default "?d 30" ds3 f3 100 30 ?sp0 "?d 250" f1 0 2]
  have s1: "the (state_after (flow_execute 1 Setpoints_default (?d 100) (FlowMeasurement_init 0))) = f1"
    by (simp add: e1 state_after_def)
  have c1: "read_after (flow_execute 1 Setpoints_default (?d 100) (FlowMeasurement_init 0))
       ''FLOW_TOTAL_BBL'' = Some (PFloat 1)"
    by (simp add: e1 read_after_def t1 g1 rnd)
  have c2: "read_after (flow_execute 2 Setpoints_default (?d 250) f1) ''FLOW_TOTAL_BBL''
       = Some (PFloat (5 / 2))"
    by (simp add: e2 read_after_def t2 g2 rnd)
  have c3: "map_option gross_total_bbl (state_after (flow_execute 2 Setpoints_default (?d 30) f1))
       = Some (13 / 10)"
    using B e1 e3 rd(1) [of 100] rd(1) [of 30] by (simp add: state_after_def g1 db)
  have c4: "map_option gross_total_bbl (state_after (flow_execute 2 ?sp0 (?d 250) f1)) = Some 1"
    using A hyps by (auto simp: state_after_def g1 DataStore_init_factors py_or_def)
  from c1 c2 c3 c4 show ?thesis unfolding s1 by blast
qed

section \<open>Batch totals\<close>

text \<open>
  Claim C10 as stated fails: \<^verbatim>\<open>BATCH_GROSS_BBL\<close> is the product of the gross total and the
  meter factor only after rounding to 4 decimals. With one pulse at 100 pulses per barrel
  and a meter factor of 1.0123 the gross total is 0.01, the product is 0.010123 and the
  tag holds 0.0101.
\<close>

theorem batch_gross_rounding_counterexample:
  "read_after (flow_execute 1 Setpoints_default
       (ds_write 0 ''METER_FACTOR'' (PFloat (10123 / 10000))
         (ds_write 0 ''PI_METER_PULSE'' (PInt 1) DataStore_init))
       (FlowMeasurement_init 0)) ''BATCH_GROSS_BBL'' = Some (PFloat (101 / 10000))
   \<and> map_option gross_total_bbl (state_after (flow_execute 1 Setpoints_default
       (ds_write 0 ''METER_FACTOR'' (PFloat (10123 / 10000))
         (ds_write 0 ''PI_METER_PULSE'' (PInt 1) DataStore_init))
       (FlowMeasurement_init 0))) = Some (1 / 100)
   \<and> (1 / 100 :: real) * (10123 / 10000) \<noteq> 101 / 10000"
proof -
  let ?ds = "ds_write 0 ''METER_FACTOR'' (PFloat (10123 / 10000))
         (ds_write 0 ''PI_METER_PULSE'' (PInt 1) DataStore_init)"
  have rd: "ds_read ?ds ''PI_METER_PULSE'' = PInt 1"
    "ds_read ?ds ''METER_FACTOR'' = PFloat (10123 / 10000)"
    "ds_read ?ds ''CTL_FACTOR'' = PFloat 1"
    by (simp_all add: DataStore_init_factors)
  have k100: "meter_k_factor Setpoints_default = 100" "scan_rate_ms Setpoints_default = 100"
    by (simp_all add: Setpoints_default_def)
  have rnd: "py_round (10123 / 1000000) 4 = 101 / 10000"
    by (simp add: py_round_def round_half_even_def)
  show ?thesis
    by (simp add: read_after_def state_after_def flow_execute_def rd py_or_def Let_def
        delta_pulses_def delta_bbl_def k100 FlowMeasurement_init_def rnd)
qed

text \<open>
  Claim C10, amended: on every cycle of \<^verbatim>\<open>FlowMeasurement.execute\<close> that completes, the
  values written to \<^verbatim>\<open>FLOW_NET_BBL\<close> and \<^verbatim>\<open>BATCH_NET_BBL\<close> are equal,
  \<^verbatim>\<open>BATCH_GROSS_BBL\<close> is the cumulative gross total times the meter factor rounded to 4
  decimals, where the meter factor is the \<^verbatim>\<open>METER_FACTOR\<close> tag or 1.0 when that tag is
  zero or absent, and \<^verbatim>\<open>FLOW_TOTAL_BBL\<close> is the same gross total rounded to 4 decimals;
  \<^verbatim>\<open>reset_totals\<close> zeroes the accumulator and all four tags together.
\<close>

theorem batch_totals_single_accumulator:
  "(flow_execute now sp ds f = Some (ds', f') \<longrightarrow>
      ds_read ds' ''FLOW_NET_BBL'' = ds_read ds' ''BATCH_NET_BBL''
    \<and> (\<exists>mf. num (py_or (ds_read ds ''METER_FACTOR'') (PFloat 1)) = Some mf
          \<and> ds_read ds' ''BATCH_GROSS_BBL'' = PFloat (py_round (gross_total_bbl f' * mf) 4))
    \<and> ds_read ds' ''FLOW_TOTAL_BBL'' = PFloat (py_round (gross_total_bbl f') 4))
   \<and> gross_total_bbl (snd (flow_reset_totals now ds f)) = 0
   \<and> ds_read (fst (flow_reset_totals now ds f)) ''FLOW_TOTAL_BBL'' = PFloat 0
   \<and> ds_read (fst (flow_reset_totals now ds f)) ''FLOW_NET_BBL'' = PFloat 0
   \<and> ds_read (fst (flow_reset_totals now ds f)) ''BATCH_GROSS_BBL'' = PFloat 0
   \<and> ds_read (fst (flow_reset_totals now ds f)) ''BATCH_NET_BBL'' = PFloat 0"
proof -
  have A: "ds_read ds' ''FLOW_NET_BBL'' = ds_read ds' ''BATCH_NET_BBL''
    \<and> (\<exists>mf. num (py_or (ds_read ds ''METER_FACTOR'') (PFloat 1)) = Some mf
          \<and> ds_read ds' ''BATCH_GROSS_BBL'' = PFloat (py_round (gross_total_bbl f' * mf) 4))
    \<and> ds_read ds' ''FLOW_TOTAL_BBL'' = PFloat (py_round (gross_total_bbl f') 4)"
    if "flow_execute now sp ds f = Some (ds', f')"
    using flow_execute_Some [OF that] by auto
  have B: "gross_total_bbl (snd (flow_reset_totals now ds f)) = 0
   \<and> ds_read (fst (flow_reset_totals now ds f)) ''FLOW_TOTAL_BBL'' = PFloat 0
   \<and> ds_read (fst (flow_reset_totals now ds f)) ''FLOW_NET_BBL'' = PFloat 0
   \<and> ds_read (fst (flow_reset_totals now ds f)) ''BATCH_GROSS_BBL'' = PFloat 0
   \<and> ds_read (fst (flow_reset_totals now ds f)) ''BATCH_NET_BBL'' = PFloat 0"
    by (simp add: flow_reset_totals_def Let_def)
  from A B show ?thesis by blast
qed

theorem batch_totals_single_accumulator_witness:
  "flow_execute 1 Setpoints_default
       (ds_write 0 ''METER_FACTOR'' (PFloat (10123 / 10000))
         (ds_write 0 ''PI_METER_PULSE'' (PInt 100) DataStore_init))
       (FlowMeasurement_init 0) \<noteq> None
   \<and> read_after (flow_execute 1 Setpoints_default
       (ds_write 0 ''METER_FACTOR'' (PFloat (10123 / 10000))
         (ds_write 0 ''PI_METER_PULSE'' (PInt 100) DataStore_init))
       (FlowMeasurement_init 0)) ''BATCH_GROSS_BBL'' = Some (PFloat (10123 / 10000))
   \<and> read_after (flow_execute 1 Setpoints_default
       (ds_write 0 ''METER_FACTOR'' (PFloat (10123 / 10000))
         (ds_write 0 ''PI_METER_PULSE'' (PInt 100) DataStore_init))
       (FlowMeasurement_init 0)) ''FLOW_NET_BBL''
     = read_after (flow_execute 1 Setpoints_default
       (ds_write 0 ''METER_FACTOR'' (PFloat (10123 / 10000))
         (ds_write 0 ''PI_METER_PULSE'' (PInt 100) DataStore_init))
       (FlowMeasurement_init 0)) ''BATCH_NET_BBL''"
proof -
  let ?ds = "ds_write 0 ''METER_FACTOR'' (PFloat (10123 / 10000))
         (ds_write 0 ''PI_METER_PULSE'' (PInt 100) DataStore_init)"
  have rd: "num (ds_read ?ds ''PI_METER_PULSE'') = Some 100"
    "num (py_or (ds_read ?ds ''METER_FACTOR'') (PFloat 1)) = Some (10123 / 10000)"
    "num (py_or (ds_read ?ds ''CTL_FACTOR'') (PFloat 1)) = Some 1"
    "num (last_pulse_count (FlowMeasurement_init 0)) = Some 0"
    by (simp_all add: DataStore_init_factors py_or_def FlowMeasurement_init_def)
  have k100: "meter_k_factor Setpoints_default = 100"
    by (simp add: Setpoints_default_def)
  obtain ds' f' where e: "flow_execute 1 Setpoints_default ?ds (FlowMeasurement_init 0) = Some (ds', f')"
    and g: "gross_total_bbl f' = 1"
    using flow_execute_eval [OF rd(1) rd(4) rd(2) rd(3), where now = 1 and sp = Setpoints_default]
    by (auto simp: delta_bbl_def delta_pulses_def k100 FlowMeasurement_init_def)
  have rnd: "py_round (10123 / 10000) 4 = 10123 / 10000"
    by (simp add: py_round_def round_half_even_def)
  from batch_totals_single_accumulator [of 1 Setpoints_default ?ds "FlowMeasurement_init 0" ds' f'] e
  obtain mf where net: "ds_read ds' ''FLOW_NET_BBL'' = ds_read ds' ''BATCH_NET_BBL''"
    and mf: "num (py_or (ds_read ?ds ''METER_FACTOR'') (PFloat 1)) = Some mf"
    and bg: "ds_read ds' ''BATCH_GROSS_BBL'' = PFloat (py_round (gross_total_bbl f' * mf) 4)"
    by blast
  from mf rd(2) have "mf = 10123 / 10000" by (simp only: option.inject)
  with bg g rnd have "ds_read ds' ''BATCH_GROSS_BBL'' = PFloat (10123 / 10000)" by simp
  with net e show ?thesis by (simp add: read_after_def)
qed

section \<open>Meter proving\<close>

lemma foldl_max_Max: "foldl max (m::real) ms = Max (set (m # ms))"
proof -
  have "(\<lambda>x s. max s x) = (max :: real \<Rightarrow> real \<Rightarrow> real)"
    by (intro ext) (simp add: max.commute)
  then show ?thesis by (simp only: Max.set_eq_fold foldl_conv_fold)
qed

lemma foldl_min_Min: "foldl min (m::real) ms = Min (set (m # ms))"
proof -
  have "(\<lambda>x s. min s x) = (min :: real \<Rightarrow> real \<Rightarrow> real)"
    by (intro ext) (simp add: min.commute)
  then show ?thesis by (simp only: Min.set_eq_fold foldl_conv_fold)
qed

text \<open>
  Claim C5: when the prover executes in Calculating with a non-empty run list, with
  repeatability \<open>(max - min) / avg * 100\<close> over the run meter factors: if the repeatability
  exceeds \<^verbatim>\<open>prove_repeatability_pct\<close> or the average lies outside
  \<open>[prove_meter_factor_min, prove_meter_factor_max]\<close>, the state becomes Failed and the tag
  database is unchanged; otherwise \<^verbatim>\<open>METER_FACTOR\<close> is written with the average rounded
  to 4 decimals and the state becomes Complete. (The source takes the repeatability as 0
  when the average is 0, which is the value of the quotient by zero in HOL.)
\<close>

theorem proving_calculation_result:
  assumes "pm_state pm = PS_CALCULATING" and "runs pm \<noteq> []"
  shows "\<exists>ds' pm'. proving_execute now sp ds pm = Some (ds', pm')
     \<and> (let mfs = map meter_factor (runs pm);
             avg = sum_list mfs / real (length mfs);
             repeatability = (Max (set mfs) - Min (set mfs)) / avg * 100
         in if repeatability > prove_repeatability_pct sp
               \<or> avg < prove_meter_factor_min sp \<or> avg > prove_meter_factor_max sp
            then pm_state pm' = PS_FAILED \<and> ds' = ds
            else pm_state pm' = PS_COMPLETE
               \<and> ds' = ds_write now ''METER_FACTOR'' (PFloat (py_round avg 4)) ds
               \<and> ds_read ds' ''METER_FACTOR'' = PFloat (py_round avg 4))"
proof -
  from assms(2) obtain r rs where rs: "runs pm = r # rs" by (cases "runs pm") auto
  define mfs where "mfs = map meter_factor (runs pm)"
  define avg where "avg = sum_list mfs / real (length mfs)"
  define rng where "rng = Max (set mfs) - Min (set mfs)"
  define pm1 where "pm1 = pm\<lparr>result_meter_factor := py_round avg 4,
      result_repeatability := py_round (rng / avg * 100) 4\<rparr>"
  have mfs: "map meter_factor (runs pm) = meter_factor r # map meter_factor rs"
    by (simp add: rs)
  have rng': "foldl max (meter_factor r) (map meter_factor rs)
      - foldl min (meter_factor r) (map meter_factor rs) = rng"
    unfolding rng_def mfs_def mfs foldl_max_Max foldl_min_Min by (rule refl)
  have avg': "sum_list (meter_factor r # map meter_factor rs)
      / real (length (meter_factor r # map meter_factor rs)) = avg"
    unfolding avg_def mfs_def mfs by (rule refl)
  have rep: "(if avg \<noteq> 0 then rng / avg * 100 else 0) = rng / avg * 100" by simp
  have hc: "handle_calculating now sp ds pm =
     (if rng / avg * 100 > prove_repeatability_pct sp then (ds, pm1\<lparr>pm_state := PS_FAILED\<rparr>)
      else if \<not> (prove_meter_factor_min sp \<le> avg \<and> avg \<le> prove_meter_factor_max sp)
      then (ds, pm1\<lparr>pm_state := PS_FAILED\<rparr>)
      else (ds_write now ''METER_FACTOR'' (PFloat (result_meter_factor pm1)) ds,
            pm1\<lparr>pm_state := PS_COMPLETE\<rparr>))"
    unfolding handle_calculating_def mfs list.case Let_def avg' rng' rep pm1_def
    by (rule refl)
  have e: "proving_execute now sp ds pm = Some (handle_calculating now sp ds pm)"
    using assms(1) by (simp add: proving_execute_def)
  have r1: "result_meter_factor pm1 = py_round avg 4" by (simp add: pm1_def)
  show ?thesis
    unfolding e hc Let_def mfs_def [symmetric] avg_def [symmetric] rng_def [symmetric] r1
    by (auto simp: not_le)
qed

theorem proving_calculation_result_witness:
  "pm_state (ProvingManager_init\<lparr>pm_state := PS_CALCULATING,
       runs := [ProvingRun_init\<lparr>meter_factor := 1\<rparr>, ProvingRun_init\<lparr>meter_factor := 1\<rparr>,
                ProvingRun_init\<lparr>meter_factor := 1\<rparr>, ProvingRun_init\<lparr>meter_factor := 1\<rparr>,
                ProvingRun_init\<lparr>meter_factor := 1\<rparr>]\<rparr>) = PS_CALCULATING
   \<and> map_option pm_state (state_after (proving_execute 7 Setpoints_default
       (ds_write 0 ''METER_FACTOR'' (PFloat (1005 / 1000)) DataStore_init)
       (ProvingManager_init\<lparr>pm_state := PS_CALCULATING,
       runs := [ProvingRun_init\<lparr>meter_factor := 1\<rparr>, ProvingRun_init\<lparr>meter_factor := 1\<rparr>,
                ProvingRun_init\<lparr>meter_factor := 1\<rparr>, ProvingRun_init\<lparr>meter_factor := 1\<rparr>,
                ProvingRun_init\<lparr>meter_factor := 1\<rparr>]\<rparr>))) = Some PS_COMPLETE
   \<and> read_after (proving_execute 7 Setpoints_default
       (ds_write 0 ''METER_FACTOR'' (PFloat (1005 / 1000)) DataStore_init)
       (ProvingManager_init\<lparr>pm_state := PS_CALCULATING,
       runs := [ProvingRun_init\<lparr>meter_factor := 1\<rparr>, ProvingRun_init\<lparr>meter_factor := 1\<rparr>,
                ProvingRun_init\<lparr>meter_factor := 1\<rparr>, ProvingRun_init\<lparr>meter_factor := 1\<rparr>,
                ProvingRun_init\<lparr>meter_factor := 1\<rparr>]\<rparr>)) ''METER_FACTOR'' = Some (PFloat 1)
   \<and> map_option pm_state (state_after (proving_execute 7 Setpoints_default
       (ds_write 0 ''METER_FACTOR'' (PFloat (1005 / 1000)) DataStore_init)
       (ProvingManager_init\<lparr>pm_state := PS_CALCULATING,
       runs := [ProvingRun_init\<lparr>meter_factor := 1\<rparr>, ProvingRun_init\<lparr>meter_factor := 1\<rparr>,
                ProvingRun_init\<lparr>meter_factor := 1\<rparr>, ProvingRun_init\<lparr>meter_factor := 101 / 100\<rparr>,
                ProvingRun_init\<lparr>meter_factor := 1\<rparr>]\<rparr>))) = Some PS_FAILED
   \<and> read_after (proving_execute 7 Setpoints_default
       (ds_write 0 ''METER_FACTOR'' (PFloat (1005 / 1000)) DataStore_init)
       (ProvingManager_init\<lparr>pm_state := PS_CALCULATING,
       runs := [ProvingRun_init\<lparr>meter_factor := 1\<rparr>, ProvingRun_init\<lparr>meter_factor := 1\<rparr>,
                ProvingRun_init\<lparr>meter_factor := 1\<rparr>, ProvingRun_init\<lparr>meter_factor := 101 / 100\<rparr>,
                ProvingRun_init\<lparr>meter_factor := 1\<rparr>]\<rparr>)) ''METER_FACTOR''
       = Some (PFloat (1005 / 1000))"
proof -
  let ?ds = "ds_write 0 ''METER_FACTOR'' (PFloat (1005 / 1000)) DataStore_init"
  let ?pmA = "ProvingManager_init\<lparr>pm_state := PS_CALCULATING,
       runs := [ProvingRun_init\<lparr>meter_factor := 1\<rparr>, ProvingRun_init\<lparr>meter_factor := 1\<rparr>,
                ProvingRun_init\<lparr>meter_factor := 1\<rparr>, ProvingRun_init\<lparr>meter_factor := 1\<rparr>,
                ProvingRun_init\<lparr>meter_factor := 1\<rparr>]\<rparr>"
  let ?pmB = "ProvingManager_init\<lparr>pm_state := PS_CALCULATING,
       runs := [ProvingRun_init\<lparr>meter_factor := 1\<rparr>, ProvingRun_init\<lparr>meter_factor := 1\<rparr>,
                ProvingRun_init\<lparr>meter_factor := 1\<rparr>, ProvingRun_init\<lparr>meter_factor := 101 / 100\<rparr>,
                ProvingRun_init\<lparr>meter_factor := 1\<rparr>]\<rparr>"
  have hA: "pm_state ?pmA = PS_CALCULATING" "runs ?pmA \<noteq> []"
    and hB: "pm_state ?pmB = PS_CALCULATING" "runs ?pmB \<noteq> []"
    by simp_all
  have sp: "prove_repeatability_pct Setpoints_default = 5 / 100"
    "prove_meter_factor_min Setpoints_default = 98 / 100"
    "prove_meter_factor_max Setpoints_default = 102 / 100"
    by (simp_all add: Setpoints_default_def)
  have rnd: "py_round 1 4 = 1" by (simp add: py_round_def round_half_even_def)
  have A: "\<exists>ds' pm'. proving_execute 7 Setpoints_default ?ds ?pmA = Some (ds', pm')
      \<and> pm_state pm' = PS_COMPLETE \<and> ds_read ds' ''METER_FACTOR'' = PFloat 1"
    using proving_calculation_result [OF hA, of 7 Setpoints_default ?ds]
    by (auto simp: Let_def sp rnd)
  have B: "\<exists>ds' pm'. proving_execute 7 Setpoints_default ?ds ?pmB = Some (ds', pm')
      \<and> pm_state pm' = PS_FAILED \<and> ds' = ?ds"
    using proving_calculation_result [OF hB, of 7 Setpoints_default ?ds]
    by (auto simp: Let_def sp)
  from A B hA(1) show ?thesis
    by (auto simp: read_after_def state_after_def)
qed

section \<open>State machine transitions\<close>

lemma estop_always_permitted: "s \<noteq> E_STOP \<Longrightarrow> E_STOP \<in> set (TRANSITIONS s)"
  by (cases s) simp_all

lemma log_consistent_snoc_transition:
  "log_consistent s l a \<Longrightarrow> b \<in> set (TRANSITIONS a) \<Longrightarrow> log_consistent s (l @ [LogTransition a b]) b"
  by (induction s l a rule: log_consistent.induct) auto

lemma log_consistent_snoc_illegal:
  "log_consistent s l a \<Longrightarrow> b \<notin> set (TRANSITIONS a) \<Longrightarrow> log_consistent s (l @ [LogIllegal a b]) a"
  by (induction s l a rule: log_consistent.induct) auto

lemma transition_cases:
  "(target \<notin> set (TRANSITIONS (state sm)) \<longrightarrow>
      transition now target ds sm
        = (False, ds, sm\<lparr>sm_log := sm_log sm @ [LogIllegal (state sm) target]\<rparr>))
   \<and> (target \<in> set (TRANSITIONS (state sm)) \<longrightarrow>
      fst (transition now target ds sm)
      \<and> state (snd (snd (transition now target ds sm))) = target)"
  by (simp add: transition_def Let_def)

lemma transition_log_ok:
  "log_ok s0 sm \<Longrightarrow> log_ok s0 (snd (snd (transition now target ds sm)))"
  by (simp add: transition_def Let_def log_ok_def log_consistent_snoc_transition
      log_consistent_snoc_illegal)

lemma transition_step_ok: "step_ok sm (snd (snd (transition now target ds sm)))"
  by (simp add: transition_def Let_def step_ok_def)

lemma transition_not_ok_state:
  "\<not> fst (transition now target ds sm) \<Longrightarrow> state (snd (snd (transition now target ds sm))) = state sm"
  by (simp add: transition_def Let_def split: if_splits)

lemma do_transition_sm:
  "result_sm (do_transition now target ds sm) = snd (snd (transition now target ds sm))"
  by (simp add: do_transition_def split: prod.splits)

lemma log_ok_fields [simp]:
  "log_ok s0 (sm\<lparr>startup_step := x\<rparr>) = log_ok s0 sm"
  "log_ok s0 (sm\<lparr>shutdown_step := x\<rparr>) = log_ok s0 sm"
  "log_ok s0 (sm\<lparr>request_state := r\<rparr>) = log_ok s0 sm"
  by (simp_all add: log_ok_def)

lemma step_ok_fields [simp]:
  "step_ok sm (sm'\<lparr>startup_step := x\<rparr>) = step_ok sm sm'"
  "step_ok sm (sm'\<lparr>shutdown_step := x\<rparr>) = step_ok sm sm'"
  "step_ok sm (sm'\<lparr>request_state := r\<rparr>) = step_ok sm sm'"
  "step_ok sm sm"
  by (simp_all add: step_ok_def)

lemma handler_post_same: "handler_post sm sm"
  unfolding handler_post_def
  by (rule disjI1, rule exI [of _ "startup_step sm"], rule exI [of _ "shutdown_step sm"]) simp

lemma handler_post_startup: "handler_post sm (sm\<lparr>startup_step := x\<rparr>)"
  unfolding handler_post_def
  by (rule disjI1, rule exI [of _ x], rule exI [of _ "shutdown_step sm"]) simp

lemma handler_post_shutdown: "handler_post sm (sm\<lparr>shutdown_step := y\<rparr>)"
  unfolding handler_post_def
  by (rule disjI1, rule exI [of _ "startup_step sm"], rule exI [of _ y]) simp

lemma handler_post_transition: "handler_post sm (result_sm (do_transition now target ds sm))"
  unfolding handler_post_def do_transition_sm by blast

lemmas handler_post_intros =
  handler_post_same handler_post_startup handler_post_shutdown handler_post_transition

lemma handle_idle_post: "handler_post sm (result_sm (handle_idle now ds sm))"
  by (simp add: handle_idle_def Let_def handler_post_intros)

lemma handle_startup_post: "handler_post sm (result_sm (handle_startup now sp ds sm))"
  by (simp add: handle_startup_def Let_def handler_post_intros split: option.splits)

lemma handle_running_post: "handler_post sm (result_sm (handle_running now ds sm))"
  by (simp add: handle_running_def Let_def handler_post_intros split: option.splits)

lemma handle_divert_post: "handler_post sm (result_sm (handle_divert now sp ds sm))"
  by (simp add: handle_divert_def Let_def handler_post_intros split: option.splits)

lemma handle_proving_post: "handler_post sm (result_sm (handle_proving now ds sm))"
  by (simp add: handle_proving_def handler_post_intros)

lemma handle_shutdown_post: "handler_post sm (result_sm (handle_shutdown now sp ds sm))"
  by (simp add: handle_shutdown_def Let_def handler_post_intros)

lemma handle_estop_post: "handler_post sm (result_sm (handle_estop now ds sm))"
  by (simp add: handle_estop_def Let_def handler_post_intros)

lemma handler_post_log_ok: "handler_post sm sm' \<Longrightarrow> log_ok s0 sm \<Longrightarrow> log_ok s0 sm'"
  unfolding handler_post_def by (auto simp: transition_log_ok)

lemma handler_post_step_ok: "handler_post sm sm' \<Longrightarrow> step_ok sm sm'"
  unfolding handler_post_def by (auto simp: transition_step_ok)

lemma apply_request_props:
  assumes "apply_request now ds sm = (t1, ds1, sm1)"
  shows "(log_ok s0 sm \<longrightarrow> log_ok s0 sm1) \<and> step_ok sm sm1
       \<and> (\<not> t1 \<longrightarrow> state sm1 = state sm) \<and> (t1 \<longrightarrow> state sm1 \<in> set (TRANSITIONS (state sm)))
       \<and> ds_read ds1 ''DI_ESTOP'' = ds_read ds ''DI_ESTOP''"
proof (cases "request_state sm")
  case None
  with assms show ?thesis by (simp add: apply_request_def)
next
  case (Some target)
  obtain ok ds' sm' where tr: "transition now target ds sm = (ok, ds', sm')"
    by (cases "transition now target ds sm")
  with assms Some have eq: "t1 = ok" "ds1 = ds'" "sm1 = sm'\<lparr>request_state := None\<rparr>"
    by (simp_all add: apply_request_def)
  have "log_ok s0 sm \<longrightarrow> log_ok s0 sm'" using transition_log_ok [of s0 sm now target ds] tr by simp
  moreover have "step_ok sm sm'" using transition_step_ok [of sm now target ds] tr by simp
  moreover have "\<not> ok \<longrightarrow> state sm' = state sm"
    using transition_not_ok_state [of now target ds sm] tr by simp
  moreover have "ok \<longrightarrow> state sm' \<in> set (TRANSITIONS (state sm))"
    using tr by (auto simp: transition_def Let_def split: if_splits)
  moreover have "ds_read ds' ''DI_ESTOP'' = ds_read ds ''DI_ESTOP''"
    using tr by (auto simp: transition_def Let_def split: if_splits)
  ultimately show ?thesis by (simp add: eq)
qed

lemma estop_override_props:
  assumes "estop_override now (t1, ds1, sm1) = (t2, ds2, sm2)"
  shows "(log_ok s0 sm1 \<longrightarrow> log_ok s0 sm2)
       \<and> (truthy (ds_read ds1 ''DI_ESTOP'') \<longrightarrow> state sm2 = E_STOP)
       \<and> (\<not> (truthy (ds_read ds1 ''DI_ESTOP'') \<and> state sm1 \<noteq> E_STOP) \<longrightarrow>
            t2 = t1 \<and> ds2 = ds1 \<and> sm2 = sm1)
       \<and> (truthy (ds_read ds1 ''DI_ESTOP'') \<and> state sm1 \<noteq> E_STOP \<longrightarrow> t2)
       \<and> ds_read ds2 ''DI_ESTOP'' = ds_read ds1 ''DI_ESTOP''"
proof (cases "truthy (ds_read ds1 ''DI_ESTOP'') \<and> state sm1 \<noteq> E_STOP")
  case False
  with assms show ?thesis by (auto simp: estop_override_def)
next
  case True
  then have tr: "transition now E_STOP ds1 sm1 = (t2, ds2, sm2)"
    using assms by (simp add: estop_override_def)
  have perm: "E_STOP \<in> set (TRANSITIONS (state sm1))"
    using True by (simp add: estop_always_permitted)
  have "log_ok s0 sm1 \<longrightarrow> log_ok s0 sm2"
    using transition_log_ok [of s0 sm1 now E_STOP ds1] tr by simp
  moreover have "t2 \<and> state sm2 = E_STOP"
    using transition_cases [of E_STOP sm1 now ds1] perm tr by simp
  moreover have "ds_read ds2 ''DI_ESTOP'' = ds_read ds1 ''DI_ESTOP''"
    using tr perm by (auto simp: transition_def Let_def)
  ultimately show ?thesis using True by simp
qed

lemma dispatch_post: "handler_post sm (result_sm (dispatch now sp ds sm))"
  by (cases "state sm")
    (simp_all add: dispatch_def handle_idle_post handle_startup_post handle_running_post
      handle_divert_post handle_proving_post handle_shutdown_post handle_estop_post)

lemma sm_execute_log_ok:
  assumes "log_ok s0 sm"
  shows "log_ok s0 (result_sm (sm_execute now sp ds sm))"
proof -
  obtain t1 ds1 sm1 where r1: "apply_request now ds sm = (t1, ds1, sm1)"
    by (cases "apply_request now ds sm")
  obtain t2 ds2 sm2 where r2: "estop_override now (t1, ds1, sm1) = (t2, ds2, sm2)"
    by (cases "estop_override now (t1, ds1, sm1)")
  have ex: "sm_execute now sp ds sm = (if t2 then Done ds2 sm2 else dispatch now sp ds2 sm2)"
    by (simp only: sm_execute_def r1 r2 prod.case)
  have l2: "log_ok s0 sm2"
    using apply_request_props [OF r1, of s0] estop_override_props [OF r2, of s0] assms by blast
  show ?thesis
  proof (cases t2)
    case True
    then show ?thesis using l2 by (simp add: ex)
  next
    case False
    then have "result_sm (sm_execute now sp ds sm) = result_sm (dispatch now sp ds2 sm2)"
      by (simp add: ex)
    then show ?thesis
      using handler_post_log_ok [OF dispatch_post l2, of now sp ds2] by simp
  qed
qed

lemma sm_execute_step_ok: "step_ok sm (result_sm (sm_execute now sp ds sm))"
proof -
  obtain t1 ds1 sm1 where r1: "apply_request now ds sm = (t1, ds1, sm1)"
    by (cases "apply_request now ds sm")
  obtain t2 ds2 sm2 where r2: "estop_override now (t1, ds1, sm1) = (t2, ds2, sm2)"
    by (cases "estop_override now (t1, ds1, sm1)")
  have ex: "sm_execute now sp ds sm = (if t2 then Done ds2 sm2 else dispatch now sp ds2 sm2)"
    by (simp only: sm_execute_def r1 r2 prod.case)
  note p1 = apply_request_props [OF r1, of "state sm"]
  note p2 = estop_override_props [OF r2, of "state sm"]
  show ?thesis
  proof (cases "truthy (ds_read ds1 ''DI_ESTOP'') \<and> state sm1 \<noteq> E_STOP")
    case True
    then have t2: t2 and s2: "state sm2 = E_STOP" using p2 by blast+
    have "step_ok sm sm2"
    proof (cases "state sm = E_STOP")
      case True
      with s2 show ?thesis by (simp add: step_ok_def)
    next
      case False
      with s2 show ?thesis by (simp add: step_ok_def estop_always_permitted)
    qed
    with t2 show ?thesis by (simp add: ex)
  next
    case False
    then have eq: "t2 = t1" "ds2 = ds1" "sm2 = sm1" using p2 by blast+
    show ?thesis
    proof (cases t1)
      case True
      then have "step_ok sm sm1" using p1 by blast
      with True eq show ?thesis by (simp add: ex)
    next
      case False
      then have st: "state sm1 = state sm" using p1 by blast
      have "result_sm (sm_execute now sp ds sm) = result_sm (dispatch now sp ds1 sm1)"
        using False eq by (simp add: ex)
      moreover have "step_ok sm1 (result_sm (dispatch now sp ds1 sm1))"
        by (rule handler_post_step_ok) (rule dispatch_post)
      ultimately show ?thesis using st by (simp add: step_ok_def)
    qed
  qed
qed

lemma sm_event_step_log_ok: "log_ok s0 sm \<Longrightarrow> log_ok s0 (sm_event_step sm ev)"
  by (cases ev) (simp_all add: request_transition_def sm_execute_log_ok)

lemma sm_run_log_ok: "log_ok s0 sm \<Longrightarrow> log_ok s0 (foldl sm_event_step sm evs)"
  by (induction evs arbitrary: sm) (simp_all add: sm_event_step_log_ok)

text \<open>
  Claim C2: in every execution of the state machine from its initial state, under any
  interleaving of transition requests and cycles with any contents of the tag database (in
  particular any values of \<^verbatim>\<open>DI_ESTOP\<close>), the log of the machine is consistent: each
  change of the current state is a recorded transition from the state current at that
  point to a state the table of section 4.4 permits from it. Over one cycle as a whole the
  state is unchanged or reaches a state permitted from the state before the cycle. A
  transition that the table does not permit leaves the state and the tag database
  unchanged and reports failure.
\<close>

theorem transitions_always_legal:
  "log_consistent IDLE (sm_log (foldl sm_event_step (LACTStateMachine_init t0) evs))
       (state (foldl sm_event_step (LACTStateMachine_init t0) evs))
   \<and> (state (result_sm (sm_execute now sp ds sm)) \<noteq> state sm \<longrightarrow>
        state (result_sm (sm_execute now sp ds sm)) \<in> set (TRANSITIONS (state sm)))
   \<and> (target \<notin> set (TRANSITIONS (state sm)) \<longrightarrow>
        \<not> fst (transition now target ds sm)
        \<and> fst (snd (transition now target ds sm)) = ds
        \<and> state (snd (snd (transition now target ds sm))) = state sm)"
proof -
  have "log_ok IDLE (LACTStateMachine_init t0)"
    by (simp add: log_ok_def LACTStateMachine_init_def)
  then have "log_ok IDLE (foldl sm_event_step (LACTStateMachine_init t0) evs)"
    by (rule sm_run_log_ok)
  then have A: "log_consistent IDLE (sm_log (foldl sm_event_step (LACTStateMachine_init t0) evs))
       (state (foldl sm_event_step (LACTStateMachine_init t0) evs))"
    by (simp add: log_ok_def)
  have B: "state (result_sm (sm_execute now sp ds sm)) \<noteq> state sm \<longrightarrow>
        state (result_sm (sm_execute now sp ds sm)) \<in> set (TRANSITIONS (state sm))"
    using sm_execute_step_ok [of sm now sp ds] by (auto simp: step_ok_def)
  have C: "target \<notin> set (TRANSITIONS (state sm)) \<longrightarrow>
        \<not> fst (transition now target ds sm)
        \<and> fst (snd (transition now target ds sm)) = ds
        \<and> state (snd (snd (transition now target ds sm))) = state sm"
    by (simp add: transition_def)
  from A B C show ?thesis by blast
qed

lemma DataStore_init_reads:
  "ds_read DataStore_init ''DI_ESTOP'' = PBool False"
  "ds_read DataStore_init ''DI_INLET_VLV_OPEN'' = PBool False"
  "ds_read DataStore_init ''DI_OUTLET_VLV_OPEN'' = PBool False"
  "ds_read DataStore_init ''DI_DIVERT_DIVERT'' = PBool False"
  "ds_read DataStore_init ''DI_PUMP_RUNNING'' = PBool False"
  "ds_read DataStore_init ''DI_PUMP_OVERLOAD'' = PBool False"
  "ds_read DataStore_init ''DI_SAMPLE_POT_HI'' = PBool False"
  "ds_read DataStore_init ''DO_PUMP_START'' = PBool False"
  "ds_read DataStore_init ''DO_DIVERT_CMD'' = PBool False"
  "ds_read DataStore_init ''DO_SAMPLE_SOL'' = PBool False"
  "ds_read DataStore_init ''DO_SAMPLE_MIX_PUMP'' = PBool False"
  "ds_read DataStore_init ''AI_BSW_PROBE'' = PFloat 0"
  "ds_read DataStore_init ''BATCH_START_TIME'' = PFloat 0"
  "ds_read DataStore_init ''FLOW_RATE_BPH'' = PFloat 0"
  by (simp_all add: ds_read_def DataStore_init_def tag0_def)

lemma pumping_inputs_reads:
  "ds_read (pumping_inputs b) ''DI_ESTOP'' = PBool False"
  "ds_read (pumping_inputs b) ''DI_INLET_VLV_OPEN'' = PBool True"
  "ds_read (pumping_inputs b) ''DI_OUTLET_VLV_OPEN'' = PBool True"
  "ds_read (pumping_inputs b) ''DI_DIVERT_DIVERT'' = PBool True"
  "ds_read (pumping_inputs b) ''DI_PUMP_RUNNING'' = PBool True"
  "ds_read (pumping_inputs b) ''AI_BSW_PROBE'' = PFloat b"
  "ds_read (pumping_inputs b) ''BATCH_START_TIME'' = PFloat 0"
  by (simp_all add: pumping_inputs_def DataStore_init_reads)

lemma sp_defaults:
  "bsw_divert_pct Setpoints_default = 1"
  "bsw_divert_delay_sec Setpoints_default = 3"
  "bsw_sample_delay_sec Setpoints_default = 5"
  "pump_start_delay_sec Setpoints_default = 5"
  "pump_stop_delay_sec Setpoints_default = 3"
  "divert_travel_timeout_sec Setpoints_default = 15"
  by (simp_all add: Setpoints_default_def)

lemmas sm_eval =
  sm_execute_def apply_request_def estop_override_def dispatch_def transition_def
  do_transition_def handle_idle_def handle_startup_def handle_running_def handle_divert_def
  handle_proving_def handle_shutdown_def handle_estop_def time_in_state_def
  request_transition_def LACTStateMachine_init_def Let_def pumping_inputs_reads sp_defaults

theorem transitions_always_legal_witness:
  "sm_log (foldl sm_event_step (LACTStateMachine_init 0)
       [Request RUNNING, Cycle 1 Setpoints_default DataStore_init,
        Request STARTUP, Cycle 2 Setpoints_default DataStore_init,
        Cycle 3 Setpoints_default (ds_write 3 ''DI_ESTOP'' (PBool True) DataStore_init)])
     = [LogIllegal IDLE RUNNING, LogTransition IDLE STARTUP, LogTransition STARTUP E_STOP]
   \<and> state (foldl sm_event_step (LACTStateMachine_init 0)
       [Request RUNNING, Cycle 1 Setpoints_default DataStore_init,
        Request STARTUP, Cycle 2 Setpoints_default DataStore_init,
        Cycle 3 Setpoints_default (ds_write 3 ''DI_ESTOP'' (PBool True) DataStore_init)]) = E_STOP
   \<and> log_consistent IDLE
        [LogIllegal IDLE RUNNING, LogTransition IDLE STARTUP, LogTransition STARTUP E_STOP] E_STOP
   \<and> state (result_sm (sm_execute 2 Setpoints_default DataStore_init
        (request_transition STARTUP (LACTStateMachine_init 0)))) = STARTUP
   \<and> STARTUP \<noteq> state (request_transition STARTUP (LACTStateMachine_init 0))
   \<and> STARTUP \<in> set (TRANSITIONS (state (request_transition STARTUP (LACTStateMachine_init 0))))
   \<and> RUNNING \<notin> set (TRANSITIONS (state (request_transition STARTUP (LACTStateMachine_init 0))))
   \<and> \<not> fst (transition 2 RUNNING DataStore_init (request_transition STARTUP (LACTStateMachine_init 0)))"
  using transitions_always_legal [of 0
      "[Request RUNNING, Cycle 1 Setpoints_default DataStore_init,
        Request STARTUP, Cycle 2 Setpoints_default DataStore_init,
        Cycle 3 Setpoints_default (ds_write 3 ''DI_ESTOP'' (PBool True) DataStore_init)]"
      2 Setpoints_default DataStore_init "request_transition STARTUP (LACTStateMachine_init 0)"
      RUNNING]
  by (simp add: sm_eval DataStore_init_reads)

section \<open>Return from Divert\<close>

text \<open>
  The entry time of the machine: a cycle that begins and ends in Divert keeps it, and a cycle
  that changes the state sets it to the clock reading of that cycle.
\<close>

lemma divert_cycle_keeps_entry_time:
  assumes "state sm = DIVERT" and "state (result_sm (sm_execute now sp ds sm)) = DIVERT"
  shows "state_entry_time (result_sm (sm_execute now sp ds sm)) = state_entry_time sm"
  using assms
  by (auto simp: sm_execute_def apply_request_def estop_override_def dispatch_def
      handle_divert_def do_transition_def transition_def Let_def
      split: option.splits if_splits prod.splits)


lemma dispatch_entry:
  "state_entry_time (result_sm (dispatch now sp ds sm)) = now
   \<or> state (result_sm (dispatch now sp ds sm)) = state sm
      \<and> state_entry_time (result_sm (dispatch now sp ds sm)) = state_entry_time sm"
  by (cases "state sm")
     (auto simp: dispatch_def handle_idle_def handle_startup_def handle_running_def
        handle_divert_def handle_proving_def handle_shutdown_def handle_estop_def
        do_transition_def transition_def Let_def split: option.splits if_splits)

lemma cycle_entry_time:
  assumes "state (result_sm (sm_execute now sp ds sm)) \<noteq> state sm"
  shows "state_entry_time (result_sm (sm_execute now sp ds sm)) = now"
proof -
  obtain t1 ds1 sm1 where r1: "apply_request now ds sm = (t1, ds1, sm1)"
    by (metis prod_cases3)
  obtain t2 ds2 sm2 where r2: "estop_override now (t1, ds1, sm1) = (t2, ds2, sm2)"
    by (metis prod_cases3)
  have ex: "sm_execute now sp ds sm = (if t2 then Done ds2 sm2 else dispatch now sp ds2 sm2)"
    by (simp only: sm_execute_def r1 r2 prod.case)
  have a1: "state_entry_time sm1 = now \<or> state sm1 = state sm \<and> state_entry_time sm1 = state_entry_time sm"
    using r1 by (auto simp: apply_request_def transition_def Let_def split: option.splits if_splits)
  have a2: "state_entry_time sm2 = now \<or> state sm2 = state sm1 \<and> state_entry_time sm2 = state_entry_time sm1"
    using r2 by (auto simp: estop_override_def transition_def Let_def split: if_splits)
  show ?thesis
    using assms a1 a2 dispatch_entry [of now sp ds2 sm2] unfolding ex
    by (auto split: if_splits)
qed

text \<open>
  Claim C3 as stated fails: the wait is measured from the entry into Divert, not from the
  moment the reading drops. The machine below enters Divert at time 22 and still reads a
  BS&W of 1.2 (at or above the threshold 1.0) at time 25.5; at time 25.6 it reads 0.3 and
  returns to Running with the divert command cleared, 0.1 seconds after the high reading,
  although \<^verbatim>\<open>bsw_divert_delay_sec\<close> is 3 seconds.
\<close>

theorem divert_return_counterexample:
  "state (foldl sm_event_step (LACTStateMachine_init 0)
     [Request STARTUP,
      Cycle 0 Setpoints_default (pumping_inputs (3 / 10)),
      Cycle 1 Setpoints_default (pumping_inputs (3 / 10)),
      Cycle 2 Setpoints_default (pumping_inputs (3 / 10)),
      Cycle 3 Setpoints_default (pumping_inputs (3 / 10)),
      Cycle 6 Setpoints_default (pumping_inputs (3 / 10)),
      Cycle 7 Setpoints_default (pumping_inputs (3 / 10)),
      Cycle 21 Setpoints_default (pumping_inputs (3 / 10)),
      Request DIVERT,
      Cycle 22 Setpoints_default (pumping_inputs (12 / 10)),
      Cycle (255 / 10) Setpoints_default (pumping_inputs (12 / 10))]) = DIVERT
   \<and> bsw_divert_pct Setpoints_default \<le> 12 / 10
   \<and> 256 / 10 - 255 / 10 < bsw_divert_delay_sec Setpoints_default
   \<and> state (result_sm (sm_execute (256 / 10) Setpoints_default (pumping_inputs (3 / 10))
       (foldl sm_event_step (LACTStateMachine_init 0)
     [Request STARTUP,
      Cycle 0 Setpoints_default (pumping_inputs (3 / 10)),
      Cycle 1 Setpoints_default (pumping_inputs (3 / 10)),
      Cycle 2 Setpoints_default (pumping_inputs (3 / 10)),
      Cycle 3 Setpoints_default (pumping_inputs (3 / 10)),
      Cycle 6 Setpoints_default (pumping_inputs (3 / 10)),
      Cycle 7 Setpoints_default (pumping_inputs (3 / 10)),
      Cycle 21 Setpoints_default (pumping_inputs (3 / 10)),
      Request DIVERT,
      Cycle 22 Setpoints_default (pumping_inputs (12 / 10)),
      Cycle (255 / 10) Setpoints_default (pumping_inputs (12 / 10))]))) = RUNNING
   \<and> ds_read (result_ds (sm_execute (256 / 10) Setpoints_default (pumping_inputs (3 / 10))
       (foldl sm_event_step (LACTStateMachine_init 0)
     [Request STARTUP,
      Cycle 0 Setpoints_default (pumping_inputs (3 / 10)),
      Cycle 1 Setpoints_default (pumping_inputs (3 / 10)),
      Cycle 2 Setpoints_default (pumping_inputs (3 / 10)),
      Cycle 3 Setpoints_default (pumping_inputs (3 / 10)),
      Cycle 6 Setpoints_default (pumping_inputs (3 / 10)),
      Cycle 7 Setpoints_default (pumping_inputs (3 / 10)),
      Cycle 21 Setpoints_default (pumping_inputs (3 / 10)),
      Request DIVERT,
      Cycle 22 Setpoints_default (pumping_inputs (12 / 10)),
      Cycle (255 / 10) Setpoints_default (pumping_inputs (12 / 10))]))) ''DO_DIVERT_CMD''
     = PBool False"
  by (simp add: sm_eval)

text \<open>
  Claim C3, amended: the wait is the time since the machine entered Divert. When a cycle at
  clock reading \<open>t_in\<close> takes the machine from another state into Divert, then after any
  further requests and cycles during which it remains in Divert, whatever the BS&W readings
  of those cycles, the entry time of the machine is still \<open>t_in\<close>. While the machine is in
  Divert, with no pending request and \<^verbatim>\<open>DI_ESTOP\<close> not asserted, a cycle transitions back to
  Running (restarting the entry time) and writes \<^verbatim>\<open>DO_DIVERT_CMD\<close> false exactly when the
  current BS&W reading is below \<^verbatim>\<open>bsw_divert_pct\<close> and the time since the entry time exceeds
  \<^verbatim>\<open>bsw_divert_delay_sec\<close>; otherwise the cycle writes \<^verbatim>\<open>DO_DIVERT_CMD\<close> true and leaves
  the machine exactly as it was, entry time included: a reading at or above the threshold
  restarts no wait.
\<close>

theorem divert_returns_on_time_in_state:
  "(state sm_in \<noteq> DIVERT
      \<and> stays_in DIVERT (sm_event_step sm_in (Cycle t_in sp_in ds_in)) evs
    \<longrightarrow> state (foldl sm_event_step sm_in (Cycle t_in sp_in ds_in # evs)) = DIVERT
      \<and> state_entry_time (foldl sm_event_step sm_in (Cycle t_in sp_in ds_in # evs)) = t_in)
   \<and> (state sm = DIVERT \<and> request_state sm = None
      \<and> \<not> truthy (ds_read ds ''DI_ESTOP'')
      \<and> num (ds_read ds ''AI_BSW_PROBE'') = Some bsw
    \<longrightarrow> (\<exists>ds' sm'. sm_execute now sp ds sm = Done ds' sm'
         \<and> (if bsw < bsw_divert_pct sp \<and> now - state_entry_time sm > bsw_divert_delay_sec sp
            then state sm' = RUNNING \<and> state_entry_time sm' = now
                 \<and> ds_read ds' ''DO_DIVERT_CMD'' = PBool False
            else sm' = sm \<and> ds_read ds' ''DO_DIVERT_CMD'' = PBool True)))"
proof -
  have stay: "stays_in DIVERT m es \<Longrightarrow>
      state (foldl sm_event_step m es) = DIVERT
      \<and> state_entry_time (foldl sm_event_step m es) = state_entry_time m" for m es
  proof (induction es arbitrary: m)
    case Nil
    then show ?case by simp
  next
    case (Cons e es)
    from Cons.prems have m: "state m = DIVERT" and st: "stays_in DIVERT (sm_event_step m e) es"
      by simp_all
    from st have m': "state (sm_event_step m e) = DIVERT" by (cases es) simp_all
    have "state_entry_time (sm_event_step m e) = state_entry_time m"
    proof (cases e)
      case (Request target)
      then show ?thesis by (simp add: request_transition_def)
    next
      case (Cycle now' sp' ds')
      with m m' show ?thesis by (simp add: divert_cycle_keeps_entry_time)
    qed
    with Cons.IH [OF st] show ?case by simp
  qed
  have A: "state sm_in \<noteq> DIVERT
      \<and> stays_in DIVERT (sm_event_step sm_in (Cycle t_in sp_in ds_in)) evs
    \<longrightarrow> state (foldl sm_event_step sm_in (Cycle t_in sp_in ds_in # evs)) = DIVERT
      \<and> state_entry_time (foldl sm_event_step sm_in (Cycle t_in sp_in ds_in # evs)) = t_in"
  proof (intro impI, elim conjE)
    assume n: "state sm_in \<noteq> DIVERT"
      and st: "stays_in DIVERT (sm_event_step sm_in (Cycle t_in sp_in ds_in)) evs"
    from st have "state (sm_event_step sm_in (Cycle t_in sp_in ds_in)) = DIVERT" by (cases evs) simp_all
    with n have "state_entry_time (sm_event_step sm_in (Cycle t_in sp_in ds_in)) = t_in"
      using cycle_entry_time [of t_in sp_in ds_in sm_in] by simp
    with stay [OF st] show "state (foldl sm_event_step sm_in (Cycle t_in sp_in ds_in # evs)) = DIVERT
      \<and> state_entry_time (foldl sm_event_step sm_in (Cycle t_in sp_in ds_in # evs)) = t_in"
      by simp
  qed
  have B: "state sm = DIVERT \<and> request_state sm = None
      \<and> \<not> truthy (ds_read ds ''DI_ESTOP'')
      \<and> num (ds_read ds ''AI_BSW_PROBE'') = Some bsw
    \<longrightarrow> (\<exists>ds' sm'. sm_execute now sp ds sm = Done ds' sm'
         \<and> (if bsw < bsw_divert_pct sp \<and> now - state_entry_time sm > bsw_divert_delay_sec sp
            then state sm' = RUNNING \<and> state_entry_time sm' = now
                 \<and> ds_read ds' ''DO_DIVERT_CMD'' = PBool False
            else sm' = sm \<and> ds_read ds' ''DO_DIVERT_CMD'' = PBool True))"
  proof (intro impI, elim conjE)
    assume h: "state sm = DIVERT" "request_state sm = None"
      "\<not> truthy (ds_read ds ''DI_ESTOP'')" "num (ds_read ds ''AI_BSW_PROBE'') = Some bsw"
    have r1: "apply_request now ds sm = (False, ds, sm)"
      using h(2) by (simp add: apply_request_def)
    have r2: "estop_override now (False, ds, sm) = (False, ds, sm)"
      using h(3) by (simp add: estop_override_def)
    have ex: "sm_execute now sp ds sm = handle_divert now sp ds sm"
      using h(1) by (simp add: sm_execute_def r1 r2 dispatch_def)
    show "\<exists>ds' sm'. sm_execute now sp ds sm = Done ds' sm'
         \<and> (if bsw < bsw_divert_pct sp \<and> now - state_entry_time sm > bsw_divert_delay_sec sp
            then state sm' = RUNNING \<and> state_entry_time sm' = now
                 \<and> ds_read ds' ''DO_DIVERT_CMD'' = PBool False
            else sm' = sm \<and> ds_read ds' ''DO_DIVERT_CMD'' = PBool True)"
      unfolding ex using h(1,4)
      by (simp add: handle_divert_def Let_def do_transition_def transition_def time_in_state_def)
  qed
  from A B show ?thesis by blast
qed

theorem divert_returns_on_time_in_state_witness:
  "state (foldl sm_event_step (LACTStateMachine_init 0)
        [Request STARTUP,
         Cycle 0 Setpoints_default (pumping_inputs (3 / 10)),
         Cycle 1 Setpoints_default (pumping_inputs (3 / 10)),
         Cycle 2 Setpoints_default (pumping_inputs (3 / 10)),
         Cycle 3 Setpoints_default (pumping_inputs (3 / 10)),
         Cycle 6 Setpoints_default (pumping_inputs (3 / 10)),
         Cycle 7 Setpoints_default (pumping_inputs (3 / 10)),
         Cycle 21 Setpoints_default (pumping_inputs (3 / 10)),
         Request DIVERT]) \<noteq> DIVERT
   \<and> stays_in DIVERT (sm_event_step (foldl sm_event_step (LACTStateMachine_init 0)
        [Request STARTUP,
         Cycle 0 Setpoints_default (pumping_inputs (3 / 10)),
         Cycle 1 Setpoints_default (pumping_inputs (3 / 10)),
         Cycle 2 Setpoints_default (pumping_inputs (3 / 10)),
         Cycle 3 Setpoints_default (pumping_inputs (3 / 10)),
         Cycle 6 Setpoints_default (pumping_inputs (3 / 10)),
         Cycle 7 Setpoints_default (pumping_inputs (3 / 10)),
         Cycle 21 Setpoints_default (pumping_inputs (3 / 10)),
         Request DIVERT]) (Cycle 22 Setpoints_default (pumping_inputs (12 / 10)))) [Cycle (255 / 10) Setpoints_default (pumping_inputs (12 / 10))]
   \<and> state (foldl sm_event_step (foldl sm_event_step (LACTStateMachine_init 0)
        [Request STARTUP,
         Cycle 0 Setpoints_default (pumping_inputs (3 / 10)),
         Cycle 1 Setpoints_default (pumping_inputs (3 / 10)),
         Cycle 2 Setpoints_default (pumping_inputs (3 / 10)),
         Cycle 3 Setpoints_default (pumping_inputs (3 / 10)),
         Cycle 6 Setpoints_default (pumping_inputs (3 / 10)),
         Cycle 7 Setpoints_default (pumping_inputs (3 / 10)),
         Cycle 21 Setpoints_default (pumping_inputs (3 / 10)),
         Request DIVERT])
        (Cycle 22 Setpoints_default (pumping_inputs (12 / 10)) # [Cycle (255 / 10) Setpoints_default (pumping_inputs (12 / 10))])) = DIVERT
   \<and> state_entry_time (foldl sm_event_step (foldl sm_event_step (LACTStateMachine_init 0)
        [Request STARTUP,
         Cycle 0 Setpoints_default (pumping_inputs (3 / 10)),
         Cycle 1 Setpoints_default (pumping_inputs (3 / 10)),
         Cycle 2 Setpoints_default (pumping_inputs (3 / 10)),
         Cycle 3 Setpoints_default (pumping_inputs (3 / 10)),
         Cycle 6 Setpoints_default (pumping_inputs (3 / 10)),
         Cycle 7 Setpoints_default (pumping_inputs (3 / 10)),
         Cycle 21 Setpoints_default (pumping_inputs (3 / 10)),
         Request DIVERT])
        (Cycle 22 Setpoints_default (pumping_inputs (12 / 10)) # [Cycle (255 / 10) Setpoints_default (pumping_inputs (12 / 10))])) = 22
   \<and> request_state (foldl sm_event_step (foldl sm_event_step (LACTStateMachine_init 0)
        [Request STARTUP,
         Cycle 0 Setpoints_default (pumping_inputs (3 / 10)),
         Cycle 1 Setpoints_default (pumping_inputs (3 / 10)),
         Cycle 2 Setpoints_default (pumping_inputs (3 / 10)),
         Cycle 3 Setpoints_default (pumping_inputs (3 / 10)),
         Cycle 6 Setpoints_default (pumping_inputs (3 / 10)),
         Cycle 7 Setpoints_default (pumping_inputs (3 / 10)),
         Cycle 21 Setpoints_default (pumping_inputs (3 / 10)),
         Request DIVERT])
        (Cycle 22 Setpoints_default (pumping_inputs (12 / 10)) # [Cycle (255 / 10) Setpoints_default (pumping_inputs (12 / 10))])) = None
   \<and> \<not> truthy (ds_read (pumping_inputs (3 / 10)) ''DI_ESTOP'')
   \<and> num (ds_read (pumping_inputs (3 / 10)) ''AI_BSW_PROBE'') = Some (3 / 10)
   \<and> state (result_sm (sm_execute (256 / 10) Setpoints_default (pumping_inputs (3 / 10)) (foldl sm_event_step (foldl sm_event_step (LACTStateMachine_init 0)
        [Request STARTUP,
         Cycle 0 Setpoints_default (pumping_inputs (3 / 10)),
         Cycle 1 Setpoints_default (pumping_inputs (3 / 10)),
         Cycle 2 Setpoints_default (pumping_inputs (3 / 10)),
         Cycle 3 Setpoints_default (pumping_inputs (3 / 10)),
         Cycle 6 Setpoints_default (pumping_inputs (3 / 10)),
         Cycle 7 Setpoints_default (pumping_inputs (3 / 10)),
         Cycle 21 Setpoints_default (pumping_inputs (3 / 10)),
         Request DIVERT])
        (Cycle 22 Setpoints_default (pumping_inputs (12 / 10)) # [Cycle (255 / 10) Setpoints_default (pumping_inputs (12 / 10))]))))
       = RUNNING
   \<and> result_sm (sm_execute 24 Setpoints_default (pumping_inputs (3 / 10)) (foldl sm_event_step (foldl sm_event_step (LACTStateMachine_init 0)
        [Request STARTUP,
         Cycle 0 Setpoints_default (pumping_inputs (3 / 10)),
         Cycle 1 Setpoints_default (pumping_inputs (3 / 10)),
         Cycle 2 Setpoints_default (pumping_inputs (3 / 10)),
         Cycle 3 Setpoints_default (pumping_inputs (3 / 10)),
         Cycle 6 Setpoints_default (pumping_inputs (3 / 10)),
         Cycle 7 Setpoints_default (pumping_inputs (3 / 10)),
         Cycle 21 Setpoints_default (pumping_inputs (3 / 10)),
         Request DIVERT])
        (Cycle 22 Setpoints_default (pumping_inputs (12 / 10)) # [Cycle (255 / 10) Setpoints_default (pumping_inputs (12 / 10))]))) = (foldl sm_event_step (foldl sm_event_step (LACTStateMachine_init 0)
        [Request STARTUP,
         Cycle 0 Setpoints_default (pumping_inputs (3 / 10)),
         Cycle 1 Setpoints_default (pumping_inputs (3 / 10)),
         Cycle 2 Setpoints_default (pumping_inputs (3 / 10)),
         Cycle 3 Setpoints_default (pumping_inputs (3 / 10)),
         Cycle 6 Setpoints_default (pumping_inputs (3 / 10)),
         Cycle 7 Setpoints_default (pumping_inputs (3 / 10)),
         Cycle 21 Setpoints_default (pumping_inputs (3 / 10)),
         Request DIVERT])
        (Cycle 22 Setpoints_default (pumping_inputs (12 / 10)) # [Cycle (255 / 10) Setpoints_default (pumping_inputs (12 / 10))]))"
proof -
  let ?before = "(foldl sm_event_step (LACTStateMachine_init 0)
        [Request STARTUP,
         Cycle 0 Setpoints_default (pumping_inputs (3 / 10)),
         Cycle 1 Setpoints_default (pumping_inputs (3 / 10)),
         Cycle 2 Setpoints_default (pumping_inputs (3 / 10)),
         Cycle 3 Setpoints_default (pumping_inputs (3 / 10)),
         Cycle 6 Setpoints_default (pumping_inputs (3 / 10)),
         Cycle 7 Setpoints_default (pumping_inputs (3 / 10)),
         Cycle 21 Setpoints_default (pumping_inputs (3 / 10)),
         Request DIVERT])"
  let ?m = "(foldl sm_event_step (foldl sm_event_step (LACTStateMachine_init 0)
        [Request STARTUP,
         Cycle 0 Setpoints_default (pumping_inputs (3 / 10)),
         Cycle 1 Setpoints_default (pumping_inputs (3 / 10)),
         Cycle 2 Setpoints_default (pumping_inputs (3 / 10)),
         Cycle 3 Setpoints_default (pumping_inputs (3 / 10)),
         Cycle 6 Setpoints_default (pumping_inputs (3 / 10)),
         Cycle 7 Setpoints_default (pumping_inputs (3 / 10)),
         Cycle 21 Setpoints_default (pumping_inputs (3 / 10)),
         Request DIVERT])
        (Cycle 22 Setpoints_default (pumping_inputs (12 / 10)) # [Cycle (255 / 10) Setpoints_default (pumping_inputs (12 / 10))]))"
  have h: "state ?before \<noteq> DIVERT"
    "stays_in DIVERT (sm_event_step ?before (Cycle 22 Setpoints_default (pumping_inputs (12 / 10)))) [Cycle (255 / 10) Setpoints_default (pumping_inputs (12 / 10))]"
    by (simp_all add: sm_eval)
  have g: "request_state ?m = None"
    "\<not> truthy (ds_read (pumping_inputs (3 / 10)) ''DI_ESTOP'')"
    "num (ds_read (pumping_inputs (3 / 10)) ''AI_BSW_PROBE'') = Some (3 / 10)"
    by (simp_all add: sm_eval)
  note inst = divert_returns_on_time_in_state [where sm_in = ?before and t_in = 22
      and sp_in = Setpoints_default and ds_in = "pumping_inputs (12 / 10)" and evs = "[Cycle (255 / 10) Setpoints_default (pumping_inputs (12 / 10))]"
      and sm = ?m and ds = "pumping_inputs (3 / 10)" and bsw = "3 / 10"
      and sp = Setpoints_default]
  from h inst [where now = 24] have e: "state ?m = DIVERT" "state_entry_time ?m = 22"
    by blast+
  note hyp = conjI [OF e(1) conjI [OF g(1) conjI [OF g(2) g(3)]]]
  from inst [where now = "256 / 10", THEN conjunct2, THEN mp, OF hyp]
  obtain ds1 sm1
    where x1: "sm_execute (256 / 10) Setpoints_default (pumping_inputs (3 / 10)) ?m = Done ds1 sm1"
    and y1: "if 3 / 10 < bsw_divert_pct Setpoints_default
               \<and> 256 / 10 - state_entry_time ?m > bsw_divert_delay_sec Setpoints_default
            then state sm1 = RUNNING \<and> state_entry_time sm1 = 256 / 10
                 \<and> ds_read ds1 ''DO_DIVERT_CMD'' = PBool False
            else sm1 = ?m \<and> ds_read ds1 ''DO_DIVERT_CMD'' = PBool True"
    by blast
  from y1 have "state sm1 = RUNNING" unfolding e(2) by (simp add: sp_defaults)
  with x1
  have a: "state (result_sm (sm_execute (256 / 10) Setpoints_default (pumping_inputs (3 / 10)) ?m)) = RUNNING"
    by (simp only: result_sm.simps)
  from inst [where now = 24, THEN conjunct2, THEN mp, OF hyp]
  obtain ds2 sm2
    where x2: "sm_execute 24 Setpoints_default (pumping_inputs (3 / 10)) ?m = Done ds2 sm2"
    and y2: "if 3 / 10 < bsw_divert_pct Setpoints_default
               \<and> 24 - state_entry_time ?m > bsw_divert_delay_sec Setpoints_default
            then state sm2 = RUNNING \<and> state_entry_time sm2 = 24
                 \<and> ds_read ds2 ''DO_DIVERT_CMD'' = PBool False
            else sm2 = ?m \<and> ds_read ds2 ''DO_DIVERT_CMD'' = PBool True"
    by blast
  from y2 have "sm2 = ?m" unfolding e(2) by (simp add: sp_defaults)
  with x2
  have b: "result_sm (sm_execute 24 Setpoints_default (pumping_inputs (3 / 10)) ?m) = ?m"
    by (simp only: result_sm.simps)
  from h e g a b show ?thesis by blast
qed

end
